theory Spec2Isabelle
  imports Complex_Main
begin

section \<open>Type declarations and type-checker fixtures\<close>

text \<open>
  The source files are a TypeScript declaration file (\<^verbatim>\<open>types/react/v15/index.d.ts\<close>), two
  fixtures that exercise declarations of other libraries (a cookie plugin and a zip writer)
  and a compiler configuration. The declaration file has no function bodies to translate into
  HOL functions; what it defines is types. So the embedding has three layers:
  \<^item> the declarations as the source writes them: type expressions, members, signatures,
    declarations, and the statements of the fixtures (one constructor per syntactic form, one
    definition per declaration, in source order);
  \<^item> the functions that give the declarations their meaning: inherited members of an
    interface, the values of a type, assignability of one type to another, instantiation of a
    generic signature;
  \<^item> the properties, proved by evaluating those functions on the declarations.
\<close>

subsection \<open>Type expressions\<close>

text \<open>
  \<open>TRef\<close> is a reference to a named type or a type parameter, with its type arguments, the name
  written as the source writes it. \<open>TIndexed t k\<close> is the indexed access \<^verbatim>\<open>t["k"]\<close>, \<open>TIs x t\<close>
  the type predicate \<^verbatim>\<open>x is t\<close>, \<open>TMapped k s opt t\<close> the mapped type \<^verbatim>\<open>{ [k in s]: t }\<close> (with
  \<^verbatim>\<open>?\<close> when \<open>opt\<close>), \<open>TFunc\<close> and \<open>TNew\<close> the function and constructor types
  \<^verbatim>\<open>(ps) => r\<close> and \<^verbatim>\<open>new(ps) => r\<close>. A parameter carries its name, whether it is optional
  (\<^verbatim>\<open>?\<close>), whether it is a rest parameter (\<^verbatim>\<open>...\<close>), and its type. A type parameter carries
  its constraint (\<^verbatim>\<open>extends\<close>) and its default (\<^verbatim>\<open>=\<close>).
\<close>

datatype ty =
    TString | TNumber | TBoolean | TNull | TUndefined | TVoid | TAny
  | TStrLit string
  | TNumLit int
  | TBoolLit bool
  | TRef string "ty list"
  | TUnion "ty list"
  | TInter "ty list"
  | TArray ty
  | TKeyof ty
  | TIndexed ty string
  | TIs string ty
  | TMapped string ty bool ty
  | TObject "member list"
  | TFunc "param list" ty
  | TNew "param list" ty
and param = Param (p_name: string) (p_optional: bool) (p_rest: bool) (p_type: ty)
and member =
    PropSig string bool ty
  | MethodSig string bool "tparam list" "param list" ty
  | CallSig "tparam list" "param list" ty
  | NewSig "tparam list" "param list" ty
  | IndexSig string ty ty
and tparam = TParam (tp_name: string) (tp_constraint: "ty option") (tp_default: "ty option")

subsection \<open>Expressions and statements of the fixtures\<close>

text \<open>
  A function is plain, \<^verbatim>\<open>async\<close> or a generator (\<^verbatim>\<open>function*\<close>). An arrow function has a block
  body (\<open>EArrow\<close>) or an expression body (\<open>EArrowExpr\<close>). \<open>ECast t e\<close> is the assertion
  \<^verbatim>\<open><t> e\<close>. Numeric literals are the integer tokens of the source.
\<close>

datatype fn_kind = Plain | Async | Generator

datatype expr =
    EIdent string
  | EThis
  | EStr string
  | ENum int
  | EBool bool
  | ENull
  | EMember expr string
  | ECall expr "expr list"
  | ENew string "expr list"
  | EObj "prop_init list"
  | EArrow fn_kind "string list" "stmt list"
  | EArrowExpr fn_kind "string list" expr
  | ECast ty expr
  | EBinary string expr expr
and prop_init = PropInit string expr
and stmt =
    SExpr expr
  | SAssign expr expr
  | SVar string string expr
  | SReturn expr
  | SIf expr "stmt list" "stmt list"
  | SWhile expr "stmt list"
  | SThrow expr
  | STry "stmt list" string "stmt list"

subsection \<open>Declarations and source files\<close>

text \<open>
  A function declaration, a class constructor and a class method have a place for a body; in
  an ambient declaration the place is empty (\<open>None\<close>). The members of an interface and of an
  object type are signatures: the grammar gives them no body.
\<close>

datatype class_member =
    CProp string bool ty
  | CCtor "param list" "stmt list option"
  | CMethod string fn_kind "tparam list" "param list" ty "stmt list option"

datatype decl =
    DAlias string "tparam list" ty
  | DInterface string "tparam list" "ty list" "member list"
  | DClass string "tparam list" "ty list" "ty list" "class_member list"
  | DFunction string fn_kind "tparam list" "param list" ty "stmt list option"
  | DConst string ty

datatype import_decl =
    ImportNamed "string list" string
  | ImportRequire string string

datatype directive = ExpectType string | TsExpectError

datatype source_file =
  SourceFile (sf_path: string) (sf_imports: "import_decl list") (sf_decls: "decl list")
    (sf_stmts: "(directive option \<times> stmt) list")

subsection \<open>The compiler configuration\<close>

datatype json = JStr string | JBool bool | JArr "json list" | JObj "(string \<times> json) list"

fun json_get :: "string \<Rightarrow> json \<Rightarrow> json option" where
  "json_get k (JObj kvs) = map_of kvs k"
| "json_get k _ = None"

text \<open>The configuration that follows the zip fixture (lines 38 to 55 of the fixture file).\<close>

definition tsconfig :: json where
  "tsconfig = JObj
     [(''compilerOptions'', JObj
         [(''target'', JStr ''es2016''),
          (''lib'', JArr [JStr ''es6'', JStr ''dom'']),
          (''types'', JArr [JStr ''./index.d.ts'']),
          (''noEmit'', JBool True),
          (''esModuleInterop'', JBool True),
          (''forceConsistentCasingInFileNames'', JBool True),
          (''module'', JStr ''commonjs''),
          (''noImplicitAny'', JBool True),
          (''strictNullChecks'', JBool True),
          (''strictFunctionTypes'', JBool True),
          (''noImplicitThis'', JBool True)]),
      (''files'', JArr [JStr ''index.d.ts'', JStr ''test/xdialog-tests.ts''])]"

definition compiler_option :: "string \<Rightarrow> json option" where
  "compiler_option k = (case json_get ''compilerOptions'' tsconfig of
       Some opts \<Rightarrow> json_get k opts
     | None \<Rightarrow> None)"

subsection \<open>The declaration file\<close>

text \<open>
  The declarations of \<^verbatim>\<open>index.d.ts\<close> from line 39 to line 422 (elements, factories, nodes,
  the top-level functions, the component classes, the class interfaces and the lifecycle),
  and the type aliases of the rest of the file. These hold every \<^verbatim>\<open>function\<close>, every
  \<^verbatim>\<open>class\<close> and every \<^verbatim>\<open>type\<close> declaration of the file. What is left out are interfaces:
  the events, the attributes, the style properties, the tag tables, the prop types and the
  \<^verbatim>\<open>JSX\<close> namespaces; they are referred to by name.
\<close>

abbreviation tref :: "string \<Rightarrow> ty" where
  "tref n \<equiv> TRef n []"

abbreviation par :: "string \<Rightarrow> ty \<Rightarrow> param" where
  "par n t \<equiv> Param n False False t"

abbreviation opt_par :: "string \<Rightarrow> ty \<Rightarrow> param" where
  "opt_par n t \<equiv> Param n True False t"

abbreviation children_rest :: param where
  "children_rest \<equiv> Param ''children'' False True (TArray (tref ''ReactNode''))"

abbreviation tp :: "string \<Rightarrow> tparam" where
  "tp n \<equiv> TParam n None None"

abbreviation tp_ext :: "string \<Rightarrow> ty \<Rightarrow> tparam" where
  "tp_ext n c \<equiv> TParam n (Some c) None"

abbreviation tp_dflt :: "string \<Rightarrow> ty \<Rightarrow> tparam" where
  "tp_dflt n d \<equiv> TParam n None (Some d)"

abbreviation component_of_P :: ty where
  "component_of_P \<equiv> TRef ''Component'' [tref ''P'', tref ''ComponentState'']"

abbreviation classic_component_of_P :: ty where
  "classic_component_of_P \<equiv> TRef ''ClassicComponent'' [tref ''P'', tref ''ComponentState'']"

text \<open>Lines 39 to 50, outside the namespace.\<close>

definition native_aliases :: "decl list" where
  "native_aliases =
    [DAlias ''NativeAnimationEvent'' [] (tref ''AnimationEvent''),
     DAlias ''NativeClipboardEvent'' [] (tref ''ClipboardEvent''),
     DAlias ''NativeCompositionEvent'' [] (tref ''CompositionEvent''),
     DAlias ''NativeDragEvent'' [] (tref ''DragEvent''),
     DAlias ''NativeFocusEvent'' [] (tref ''FocusEvent''),
     DAlias ''NativeKeyboardEvent'' [] (tref ''KeyboardEvent''),
     DAlias ''NativeMouseEvent'' [] (tref ''MouseEvent''),
     DAlias ''NativeTouchEvent'' [] (tref ''TouchEvent''),
     DAlias ''NativeTransitionEvent'' [] (tref ''TransitionEvent''),
     DAlias ''NativeUIEvent'' [] (tref ''UIEvent''),
     DAlias ''NativeWheelEvent'' [] (tref ''WheelEvent''),
     DAlias ''CrossOrigin'' []
       (TUnion [TStrLit ''anonymous'', TStrLit ''use-credentials'', TStrLit '''', TUndefined])]"

abbreviation opt_boolean :: "string \<Rightarrow> member" where
  "opt_boolean n \<equiv> PropSig n True (TUnion [TBoolean, TUndefined])"

abbreviation opt_string :: "string \<Rightarrow> member" where
  "opt_string n \<equiv> PropSig n True (TUnion [TString, TUndefined])"

text \<open>Lines 61 to 134: elements.\<close>

definition element_decls :: "decl list" where
  "element_decls =
    [DAlias ''ElementType'' [tp_dflt ''P'' TAny]
       (TUnion [TString, TRef ''ComponentType'' [tref ''P'']]),
     DAlias ''ReactType'' [tp_dflt ''P'' TAny] (TRef ''ElementType'' [tref ''P'']),
     DAlias ''ComponentType'' [tp_dflt ''P'' (TObject [])]
       (TUnion [TRef ''ComponentClass'' [tref ''P''], TRef ''StatelessComponent'' [tref ''P'']]),
     DAlias ''Key'' [] (TUnion [TString, TNumber]),
     DAlias ''Ref'' [tp ''T'']
       (TUnion [TString,
          TIndexed (TObject [MethodSig ''bivarianceHack'' False []
               [par ''instance'' (TUnion [tref ''T'', TNull])] TAny]) ''bivarianceHack'']),
     DAlias ''ComponentState'' [] (TObject []),
     DInterface ''Attributes'' [] []
       [PropSig ''key'' True (TUnion [tref ''Key'', TUndefined])],
     DInterface ''ClassAttributes'' [tp ''T''] [tref ''Attributes'']
       [PropSig ''ref'' True (TUnion [TRef ''Ref'' [tref ''T''], TUndefined])],
     DInterface ''ReactElement'' [tp_dflt ''P'' TAny] []
       [PropSig ''type'' False
          (TUnion [TString, TRef ''ComponentClass'' [tref ''P''], TRef ''SFC'' [tref ''P'']]),
        PropSig ''props'' False (tref ''P''),
        PropSig ''key'' False (TUnion [tref ''Key'', TNull])],
     DInterface ''SFCElement'' [tp ''P''] [TRef ''ReactElement'' [tref ''P'']]
       [PropSig ''type'' False (TRef ''SFC'' [tref ''P''])],
     DAlias ''CElement'' [tp ''P'', tp_ext ''T'' component_of_P]
       (TRef ''ComponentElement'' [tref ''P'', tref ''T'']),
     DInterface ''ComponentElement'' [tp ''P'', tp_ext ''T'' component_of_P]
       [TRef ''ReactElement'' [tref ''P'']]
       [PropSig ''type'' False (TRef ''ComponentClass'' [tref ''P'']),
        PropSig ''ref'' True (TUnion [TRef ''Ref'' [tref ''T''], TUndefined])],
     DAlias ''ClassicElement'' [tp ''P'']
       (TRef ''CElement'' [tref ''P'', classic_component_of_P]),
     DInterface ''DOMElement''
       [tp_ext ''P'' (TUnion [TRef ''HTMLAttributes'' [tref ''T''],
                              TRef ''SVGAttributes'' [tref ''T'']]),
        tp_ext ''T'' (tref ''Element'')]
       [TRef ''ReactElement'' [tref ''P'']]
       [PropSig ''type'' False TString,
        PropSig ''ref'' False (TRef ''Ref'' [tref ''T''])],
     DInterface ''ReactHTMLElement'' [tp_ext ''T'' (tref ''HTMLElement'')]
       [TRef ''DetailedReactHTMLElement'' [TRef ''AllHTMLAttributes'' [tref ''T''], tref ''T'']]
       [],
     DInterface ''DetailedReactHTMLElement''
       [tp_ext ''P'' (TRef ''HTMLAttributes'' [tref ''T'']), tp_ext ''T'' (tref ''HTMLElement'')]
       [TRef ''DOMElement'' [tref ''P'', tref ''T'']]
       [PropSig ''type'' False (TKeyof (tref ''ReactHTML''))],
     DInterface ''ReactSVGElement'' []
       [TRef ''DOMElement'' [TRef ''SVGAttributes'' [tref ''SVGElement''], tref ''SVGElement'']]
       [PropSig ''type'' False (TKeyof (tref ''ReactSVG''))],
     DInterface ''WebViewHTMLAttributes'' [tp ''T''] [TRef ''HTMLAttributes'' [tref ''T'']]
       [opt_boolean ''allowFullScreen'',
        opt_boolean ''allowpopups'',
        opt_boolean ''autosize'',
        opt_string ''blinkfeatures'',
        opt_string ''disableblinkfeatures'',
        opt_boolean ''disableguestresize'',
        opt_boolean ''disablewebsecurity'',
        opt_string ''guestinstance'',
        opt_string ''httpreferrer'',
        opt_boolean ''nodeintegration'',
        opt_string ''partition'',
        opt_boolean ''plugins'',
        opt_string ''preload'',
        opt_string ''src'',
        opt_string ''useragent'',
        opt_string ''webpreferences'']]"

text \<open>
  Lines 140 to 168: factories. In \<^verbatim>\<open>ClassAttributes<T> & P | null\<close> the intersection binds
  tighter than the union.
\<close>

definition factory_decls :: "decl list" where
  "factory_decls =
    [DAlias ''Factory'' [tp ''P'']
       (TFunc [opt_par ''props'' (TInter [tref ''Attributes'', tref ''P'']), children_rest]
          (TRef ''ReactElement'' [tref ''P''])),
     DAlias ''SFCFactory'' [tp ''P'']
       (TFunc [opt_par ''props'' (TInter [tref ''Attributes'', tref ''P'']), children_rest]
          (TRef ''SFCElement'' [tref ''P''])),
     DAlias ''ComponentFactory'' [tp ''P'', tp_ext ''T'' component_of_P]
       (TFunc [opt_par ''props'' (TInter [TRef ''ClassAttributes'' [tref ''T''], tref ''P'']),
               children_rest]
          (TRef ''CElement'' [tref ''P'', tref ''T''])),
     DAlias ''CFactory'' [tp ''P'', tp_ext ''T'' component_of_P]
       (TRef ''ComponentFactory'' [tref ''P'', tref ''T'']),
     DAlias ''ClassicFactory'' [tp ''P'']
       (TRef ''CFactory'' [tref ''P'', classic_component_of_P]),
     DAlias ''DOMFactory''
       [tp_ext ''P'' (TRef ''DOMAttributes'' [tref ''T'']), tp_ext ''T'' (tref ''Element'')]
       (TFunc [opt_par ''props''
                 (TUnion [TInter [TRef ''ClassAttributes'' [tref ''T''], tref ''P''], TNull]),
               children_rest]
          (TRef ''DOMElement'' [tref ''P'', tref ''T''])),
     DInterface ''HTMLFactory'' [tp_ext ''T'' (tref ''HTMLElement'')]
       [TRef ''DetailedHTMLFactory'' [TRef ''AllHTMLAttributes'' [tref ''T''], tref ''T'']]
       [],
     DInterface ''DetailedHTMLFactory''
       [tp_ext ''P'' (TRef ''HTMLAttributes'' [tref ''T'']), tp_ext ''T'' (tref ''HTMLElement'')]
       [TRef ''DOMFactory'' [tref ''P'', tref ''T'']]
       [CallSig []
          [opt_par ''props''
             (TUnion [TInter [TRef ''ClassAttributes'' [tref ''T''], tref ''P''], TNull]),
           children_rest]
          (TRef ''DetailedReactHTMLElement'' [tref ''P'', tref ''T''])],
     DInterface ''SVGFactory'' []
       [TRef ''DOMFactory'' [TRef ''SVGAttributes'' [tref ''SVGElement''], tref ''SVGElement'']]
       [CallSig []
          [opt_par ''props''
             (TUnion [TInter [TRef ''ClassAttributes'' [tref ''SVGElement''],
                              TRef ''SVGAttributes'' [tref ''SVGElement'']], TNull]),
           children_rest]
          (tref ''ReactSVGElement'')]]"

text \<open>Lines 175 to 180: nodes.\<close>

definition node_decls :: "decl list" where
  "node_decls =
    [DAlias ''ReactText'' [] (TUnion [TString, TNumber]),
     DAlias ''ReactChild'' [] (TUnion [tref ''ReactElement'', tref ''ReactText'']),
     DInterface ''ReactNodeArray'' [] [TRef ''Array'' [tref ''ReactNode'']] [],
     DAlias ''ReactFragment'' [] (TUnion [TObject [], tref ''ReactNodeArray'']),
     DAlias ''ReactNode'' []
       (TUnion [tref ''ReactChild'', tref ''ReactFragment'', TBoolean, TNull, TUndefined])]"

text \<open>Lines 186 to 207: \<^verbatim>\<open>createClass\<close> and the overloads of \<^verbatim>\<open>createFactory\<close>.\<close>

abbreviation classic_class_type :: ty where
  "classic_class_type \<equiv>
     TRef ''ClassType'' [tref ''P'', classic_component_of_P,
                         TRef ''ClassicComponentClass'' [tref ''P'']]"

abbreviation class_type_PTC :: ty where
  "class_type_PTC \<equiv> TRef ''ClassType'' [tref ''P'', tref ''T'', tref ''C'']"

abbreviation tparams_PTC :: "tparam list" where
  "tparams_PTC \<equiv>
     [tp ''P'', tp_ext ''T'' component_of_P, tp_ext ''C'' (TRef ''ComponentClass'' [tref ''P''])]"

definition createClass_decl :: decl where
  "createClass_decl =
     DFunction ''createClass'' Plain [tp ''P'', tp ''S'']
       [par ''spec'' (TRef ''ComponentSpec'' [tref ''P'', tref ''S''])]
       (TRef ''ClassicComponentClass'' [tref ''P'']) None"

definition createFactory_overloads :: "decl list" where
  "createFactory_overloads =
    [DFunction ''createFactory'' Plain [tp_ext ''T'' (tref ''HTMLElement'')]
       [par ''type'' (TKeyof (tref ''ReactHTML''))]
       (TRef ''HTMLFactory'' [tref ''T'']) None,
     DFunction ''createFactory'' Plain []
       [par ''type'' (TKeyof (tref ''ReactSVG''))]
       (tref ''SVGFactory'') None,
     DFunction ''createFactory'' Plain
       [tp_ext ''P'' (TRef ''DOMAttributes'' [tref ''T'']), tp_ext ''T'' (tref ''Element'')]
       [par ''type'' TString]
       (TRef ''DOMFactory'' [tref ''P'', tref ''T'']) None,
     DFunction ''createFactory'' Plain [tp ''P'']
       [par ''type'' (TRef ''SFC'' [tref ''P''])]
       (TRef ''SFCFactory'' [tref ''P'']) None,
     DFunction ''createFactory'' Plain [tp ''P'']
       [par ''type'' classic_class_type]
       (TRef ''CFactory'' [tref ''P'', classic_component_of_P]) None,
     DFunction ''createFactory'' Plain tparams_PTC
       [par ''type'' class_type_PTC]
       (TRef ''CFactory'' [tref ''P'', tref ''T'']) None,
     DFunction ''createFactory'' Plain [tp ''P'']
       [par ''type'' (TRef ''ComponentClass'' [tref ''P''])]
       (TRef ''Factory'' [tref ''P'']) None]"

text \<open>Lines 211 to 253: the overloads of \<^verbatim>\<open>createElement\<close>.\<close>

definition createElement_overloads :: "decl list" where
  "createElement_overloads =
    [DFunction ''createElement'' Plain []
       [par ''type'' (TStrLit ''input''),
        opt_par ''props'' (TInter [TRef ''InputHTMLAttributes'' [tref ''HTMLInputElement''],
                                   TRef ''ClassAttributes'' [tref ''HTMLInputElement'']]),
        children_rest]
       (TRef ''DetailedReactHTMLElement''
          [TRef ''InputHTMLAttributes'' [tref ''HTMLInputElement''], tref ''HTMLInputElement''])
       None,
     DFunction ''createElement'' Plain
       [tp_ext ''P'' (TRef ''HTMLAttributes'' [tref ''T'']), tp_ext ''T'' (tref ''HTMLElement'')]
       [par ''type'' (TKeyof (tref ''ReactHTML'')),
        opt_par ''props'' (TInter [TRef ''ClassAttributes'' [tref ''T''], tref ''P'']),
        children_rest]
       (TRef ''DetailedReactHTMLElement'' [tref ''P'', tref ''T'']) None,
     DFunction ''createElement'' Plain
       [tp_ext ''P'' (TRef ''SVGAttributes'' [tref ''T'']), tp_ext ''T'' (tref ''SVGElement'')]
       [par ''type'' (TKeyof (tref ''ReactSVG'')),
        opt_par ''props'' (TInter [TRef ''ClassAttributes'' [tref ''T''], tref ''P'']),
        children_rest]
       (tref ''ReactSVGElement'') None,
     DFunction ''createElement'' Plain
       [tp_ext ''P'' (TRef ''DOMAttributes'' [tref ''T'']), tp_ext ''T'' (tref ''Element'')]
       [par ''type'' TString,
        opt_par ''props'' (TInter [TRef ''ClassAttributes'' [tref ''T''], tref ''P'']),
        children_rest]
       (TRef ''DOMElement'' [tref ''P'', tref ''T'']) None,
     DFunction ''createElement'' Plain [tp ''P'']
       [par ''type'' (TRef ''SFC'' [tref ''P'']),
        opt_par ''props'' (TInter [tref ''Attributes'', tref ''P'']),
        children_rest]
       (TRef ''SFCElement'' [tref ''P'']) None,
     DFunction ''createElement'' Plain [tp ''P'']
       [par ''type'' classic_class_type,
        opt_par ''props'' (TInter [TRef ''ClassAttributes'' [classic_component_of_P], tref ''P'']),
        children_rest]
       (TRef ''CElement'' [tref ''P'', classic_component_of_P]) None,
     DFunction ''createElement'' Plain tparams_PTC
       [par ''type'' class_type_PTC,
        opt_par ''props'' (TInter [TRef ''ClassAttributes'' [tref ''T''], tref ''P'']),
        children_rest]
       (TRef ''CElement'' [tref ''P'', tref ''T'']) None,
     DFunction ''createElement'' Plain [tp ''P'']
       [par ''type'' (TUnion [TRef ''SFC'' [tref ''P''], TRef ''ComponentClass'' [tref ''P''],
                              TString]),
        opt_par ''props'' (TInter [tref ''Attributes'', tref ''P'']),
        children_rest]
       (TRef ''ReactElement'' [tref ''P'']) None]"

text \<open>
  Lines 257 to 296: the overloads of \<^verbatim>\<open>cloneElement\<close>, first the four for DOM elements, then
  the three for custom components.
\<close>

definition cloneElement_dom_overloads :: "decl list" where
  "cloneElement_dom_overloads =
    [DFunction ''cloneElement'' Plain
       [tp_ext ''P'' (TRef ''HTMLAttributes'' [tref ''T'']), tp_ext ''T'' (tref ''HTMLElement'')]
       [par ''element'' (TRef ''DetailedReactHTMLElement'' [tref ''P'', tref ''T'']),
        opt_par ''props'' (tref ''P''),
        children_rest]
       (TRef ''DetailedReactHTMLElement'' [tref ''P'', tref ''T'']) None,
     DFunction ''cloneElement'' Plain
       [tp_ext ''P'' (TRef ''HTMLAttributes'' [tref ''T'']), tp_ext ''T'' (tref ''HTMLElement'')]
       [par ''element'' (TRef ''ReactHTMLElement'' [tref ''T'']),
        opt_par ''props'' (tref ''P''),
        children_rest]
       (TRef ''ReactHTMLElement'' [tref ''T'']) None,
     DFunction ''cloneElement'' Plain
       [tp_ext ''P'' (TRef ''SVGAttributes'' [tref ''T'']), tp_ext ''T'' (tref ''SVGElement'')]
       [par ''element'' (tref ''ReactSVGElement''),
        opt_par ''props'' (tref ''P''),
        children_rest]
       (tref ''ReactSVGElement'') None,
     DFunction ''cloneElement'' Plain
       [tp_ext ''P'' (TRef ''DOMAttributes'' [tref ''T'']), tp_ext ''T'' (tref ''Element'')]
       [par ''element'' (TRef ''DOMElement'' [tref ''P'', tref ''T'']),
        opt_par ''props'' (TInter [TRef ''DOMAttributes'' [tref ''T''], tref ''P'']),
        children_rest]
       (TRef ''DOMElement'' [tref ''P'', tref ''T'']) None]"

definition cloneElement_custom_overloads :: "decl list" where
  "cloneElement_custom_overloads =
    [DFunction ''cloneElement'' Plain [tp_ext ''P'' (tref ''Q''), tp ''Q'']
       [par ''element'' (TRef ''SFCElement'' [tref ''P'']),
        opt_par ''props'' (tref ''Q''),
        children_rest]
       (TRef ''SFCElement'' [tref ''P'']) None,
     DFunction ''cloneElement'' Plain
       [tp_ext ''P'' (tref ''Q''), tp ''Q'', tp_ext ''T'' component_of_P]
       [par ''element'' (TRef ''CElement'' [tref ''P'', tref ''T'']),
        opt_par ''props'' (tref ''Q''),
        children_rest]
       (TRef ''CElement'' [tref ''P'', tref ''T'']) None,
     DFunction ''cloneElement'' Plain [tp_ext ''P'' (tref ''Q''), tp ''Q'']
       [par ''element'' (TRef ''ReactElement'' [tref ''P'']),
        opt_par ''props'' (tref ''Q''),
        children_rest]
       (TRef ''ReactElement'' [tref ''P'']) None]"

text \<open>Lines 298 to 303.\<close>

definition isValidElement_decl :: decl where
  "isValidElement_decl =
     DFunction ''isValidElement'' Plain [tp ''P'']
       [par ''object'' (TObject [])]
       (TIs ''object'' (TRef ''ReactElement'' [tref ''P''])) None"

definition const_decls :: "decl list" where
  "const_decls =
    [DConst ''DOM'' (tref ''ReactDOM''),
     DConst ''PropTypes'' (tref ''ReactPropTypes''),
     DConst ''Children'' (tref ''ReactChildren''),
     DConst ''version'' TString]"

definition function_decls :: "decl list" where
  "function_decls =
     createClass_decl # createFactory_overloads @ createElement_overloads
       @ cloneElement_dom_overloads @ cloneElement_custom_overloads @ [isValidElement_decl]"

text \<open>
  Lines 309 to 350: the component classes. In the type of \<^verbatim>\<open>state\<close> of \<^verbatim>\<open>setState\<close> the source
  parenthesises the second alternative, which is kept as a nested union.
\<close>

abbreviation callback_type :: ty where
  "callback_type \<equiv> TFunc [] TAny"

abbreviation pick_or_state :: ty where
  "pick_or_state \<equiv> TUnion [TRef ''Pick'' [tref ''S'', tref ''K''], tref ''S'']"

definition Component_class :: decl where
  "Component_class =
     DClass ''Component'' [tp ''P'', tp ''S''] [] []
       [CCtor [opt_par ''props'' (tref ''P''), opt_par ''context'' TAny] None,
        CMethod ''setState'' Plain [tp_ext ''K'' (TKeyof (tref ''S''))]
          [par ''state''
             (TUnion [TFunc [par ''prevState'' (TRef ''Readonly'' [tref ''S'']),
                             par ''props'' (tref ''P'')] pick_or_state,
                      pick_or_state]),
           opt_par ''callback'' callback_type]
          TVoid None,
        CMethod ''forceUpdate'' Plain [] [opt_par ''callBack'' callback_type] TVoid None,
        CMethod ''render'' Plain [] []
          (TUnion [tref ''JSX.Element'', TNull, TBoolLit False]) None,
        CProp ''props'' False
          (TInter [TRef ''Readonly''
                     [TObject [PropSig ''children'' True
                                 (TUnion [tref ''ReactNode'', TUndefined])]],
                   TRef ''Readonly'' [tref ''P'']]),
        CProp ''state'' False (TRef ''Readonly'' [tref ''S'']),
        CProp ''context'' False TAny,
        CProp ''refs'' False (TObject [IndexSig ''key'' TString (tref ''ReactInstance'')])]"

definition component_decls :: "decl list" where
  "component_decls =
    [DAlias ''ReactInstance'' [] (TUnion [TRef ''Component'' [TAny], tref ''Element'']),
     DInterface ''Component'' [tp_dflt ''P'' (TObject []), tp_dflt ''S'' (TObject [])]
       [TRef ''ComponentLifecycle'' [tref ''P'', tref ''S'']] [],
     Component_class,
     DClass ''PureComponent'' [tp_dflt ''P'' (TObject []), tp_dflt ''S'' (TObject [])]
       [TRef ''Component'' [tref ''P'', tref ''S'']] [] [],
     DInterface ''ClassicComponent'' [tp_dflt ''P'' (TObject []), tp_dflt ''S'' (TObject [])]
       [TRef ''Component'' [tref ''P'', tref ''S'']]
       [MethodSig ''replaceState'' False []
          [par ''nextState'' (tref ''S''), opt_par ''callback'' callback_type] TVoid,
        MethodSig ''isMounted'' False [] [] TBoolean,
        MethodSig ''getInitialState'' True [] [] (tref ''S'')],
     DInterface ''ChildContextProvider'' [tp ''CC''] []
       [MethodSig ''getChildContext'' False [] [] (tref ''CC'')]]"

text \<open>Lines 356 to 387: class interfaces.\<close>

abbreviation opt_validation_map :: "string \<Rightarrow> ty \<Rightarrow> member" where
  "opt_validation_map n t \<equiv> PropSig n True (TUnion [TRef ''ValidationMap'' [t], TUndefined])"

abbreviation ctor_params :: "param list" where
  "ctor_params \<equiv> [opt_par ''props'' (tref ''P''), opt_par ''context'' TAny]"

definition class_interface_decls :: "decl list" where
  "class_interface_decls =
    [DAlias ''SFC'' [tp_dflt ''P'' (TObject [])] (TRef ''StatelessComponent'' [tref ''P'']),
     DInterface ''StatelessComponent'' [tp_dflt ''P'' (TObject [])] []
       [CallSig []
          [par ''props''
             (TInter [tref ''P'',
                      TObject [PropSig ''children'' True
                                 (TUnion [tref ''ReactNode'', TUndefined])]]),
           opt_par ''context'' TAny]
          (TUnion [tref ''ReactElement'', TNull]),
        opt_validation_map ''propTypes'' (tref ''P''),
        opt_validation_map ''contextTypes'' TAny,
        PropSig ''defaultProps'' True (TUnion [TRef ''Partial'' [tref ''P''], TUndefined]),
        PropSig ''displayName'' True (TUnion [TString, TUndefined])],
     DInterface ''ComponentClass'' [tp_dflt ''P'' (TObject [])] []
       [NewSig [] ctor_params component_of_P,
        opt_validation_map ''propTypes'' (tref ''P''),
        opt_validation_map ''contextTypes'' TAny,
        opt_validation_map ''childContextTypes'' TAny,
        PropSig ''defaultProps'' True (TUnion [TRef ''Partial'' [tref ''P''], TUndefined]),
        PropSig ''displayName'' True (TUnion [TString, TUndefined])],
     DInterface ''ClassicComponentClass'' [tp_dflt ''P'' (TObject [])]
       [TRef ''ComponentClass'' [tref ''P'']]
       [NewSig [] ctor_params classic_component_of_P,
        MethodSig ''getDefaultProps'' True [] [] (tref ''P'')],
     DAlias ''ClassType''
       [tp ''P'', tp_ext ''T'' component_of_P, tp_ext ''C'' (TRef ''ComponentClass'' [tref ''P''])]
       (TInter [tref ''C'',
                TNew ctor_params (tref ''T''),
                TNew ctor_params (TObject [PropSig ''props'' False (tref ''P'')])])]"

text \<open>Lines 393 to 422: component specs and lifecycle.\<close>

abbreviation next_props :: param where
  "next_props \<equiv> par ''nextProps'' (TRef ''Readonly'' [tref ''P''])"

abbreviation next_state :: param where
  "next_state \<equiv> par ''nextState'' (TRef ''Readonly'' [tref ''S''])"

definition lifecycle_decls :: "decl list" where
  "lifecycle_decls =
    [DInterface ''ComponentLifecycle'' [tp ''P'', tp ''S''] []
       [MethodSig ''componentWillMount'' True [] [] TVoid,
        MethodSig ''componentDidMount'' True [] [] TVoid,
        MethodSig ''componentWillReceiveProps'' True []
          [next_props, par ''nextContext'' TAny] TVoid,
        MethodSig ''shouldComponentUpdate'' True []
          [next_props, next_state, par ''nextContext'' TAny] TBoolean,
        MethodSig ''componentWillUpdate'' True []
          [next_props, next_state, par ''nextContext'' TAny] TVoid,
        MethodSig ''componentDidUpdate'' True []
          [par ''prevProps'' (TRef ''Readonly'' [tref ''P'']),
           par ''prevState'' (TRef ''Readonly'' [tref ''S'']),
           par ''prevContext'' TAny] TVoid,
        MethodSig ''componentWillUnmount'' True [] [] TVoid],
     DInterface ''Mixin'' [tp ''P'', tp ''S'']
       [TRef ''ComponentLifecycle'' [tref ''P'', tref ''S'']]
       [PropSig ''mixins'' True
          (TUnion [TRef ''Array'' [TRef ''Mixin'' [tref ''P'', tref ''S'']], TUndefined]),
        PropSig ''statics'' True (TUnion [TObject [IndexSig ''key'' TString TAny], TUndefined]),
        PropSig ''displayName'' True (TUnion [TString, TUndefined]),
        opt_validation_map ''propTypes'' TAny,
        opt_validation_map ''contextTypes'' TAny,
        opt_validation_map ''childContextTypes'' TAny,
        MethodSig ''getDefaultProps'' True [] [] (tref ''P''),
        MethodSig ''getInitialState'' True [] [] (tref ''S'')],
     DInterface ''ComponentSpec'' [tp ''P'', tp ''S'']
       [TRef ''Mixin'' [tref ''P'', tref ''S'']]
       [MethodSig ''render'' False [] [] (TUnion [tref ''ReactElement'', TNull]),
        IndexSig ''propertyName'' TString TAny]]"

text \<open>
  The other type aliases of the file: the second named union of string literals (line 478),
  the event handlers (lines 572 to 588), the props of a detailed element (line 617), the
  CSS-wide keywords and lengths (lines 801 to 807) and the validators (lines 3667 to 3675).
  With them every \<^verbatim>\<open>type\<close> declaration of the file is here.
\<close>

abbreviation handler_of :: "string \<Rightarrow> ty" where
  "handler_of event \<equiv> TRef ''EventHandler'' [TRef event [tref ''T'']]"

definition other_alias_decls :: "decl list" where
  "other_alias_decls =
    [DAlias ''ModifierKey'' []
       (TUnion [TStrLit ''Alt'', TStrLit ''AltGraph'', TStrLit ''CapsLock'', TStrLit ''Control'',
                TStrLit ''Fn'', TStrLit ''FnLock'', TStrLit ''Hyper'', TStrLit ''Meta'',
                TStrLit ''NumLock'', TStrLit ''ScrollLock'', TStrLit ''Shift'', TStrLit ''Super'',
                TStrLit ''Symbol'', TStrLit ''SymbolLock'']),
     DAlias ''EventHandler'' [tp_ext ''E'' (TRef ''SyntheticEvent'' [TAny])]
       (TIndexed (TObject [MethodSig ''bivarianceHack'' False []
                             [par ''event'' (tref ''E'')] TVoid]) ''bivarianceHack''),
     DAlias ''ReactEventHandler'' [tp ''T''] (handler_of ''SyntheticEvent''),
     DAlias ''ClipboardEventHandler'' [tp ''T''] (handler_of ''ClipboardEvent''),
     DAlias ''CompositionEventHandler'' [tp ''T''] (handler_of ''CompositionEvent''),
     DAlias ''DragEventHandler'' [tp ''T''] (handler_of ''DragEvent''),
     DAlias ''FocusEventHandler'' [tp ''T''] (handler_of ''FocusEvent''),
     DAlias ''FormEventHandler'' [tp ''T''] (handler_of ''FormEvent''),
     DAlias ''ChangeEventHandler'' [tp ''T''] (handler_of ''ChangeEvent''),
     DAlias ''KeyboardEventHandler'' [tp ''T''] (handler_of ''KeyboardEvent''),
     DAlias ''MouseEventHandler'' [tp ''T''] (handler_of ''MouseEvent''),
     DAlias ''TouchEventHandler'' [tp ''T''] (handler_of ''TouchEvent''),
     DAlias ''UIEventHandler'' [tp ''T''] (handler_of ''UIEvent''),
     DAlias ''WheelEventHandler'' [tp ''T''] (handler_of ''WheelEvent''),
     DAlias ''AnimationEventHandler'' [tp ''T''] (handler_of ''AnimationEvent''),
     DAlias ''TransitionEventHandler'' [tp ''T''] (handler_of ''TransitionEvent''),
     DAlias ''DetailedHTMLProps'' [tp_ext ''E'' (TRef ''HTMLAttributes'' [tref ''T'']), tp ''T'']
       (TInter [TRef ''ClassAttributes'' [tref ''T''], tref ''E'']),
     DAlias ''CSSWideKeyword'' []
       (TUnion [TStrLit ''initial'', TStrLit ''inherit'', TStrLit ''unset'']),
     DAlias ''CSSPercentage'' [] TString,
     DAlias ''CSSLength'' [] (TUnion [TNumber, TString]),
     DAlias ''Validator'' [tp ''T'']
       (TIndexed (TObject [MethodSig ''bivarianceHack'' False []
                             [par ''object'' (tref ''T''), par ''key'' TString,
                              par ''componentName'' TString,
                              Param ''rest'' False True (TArray TAny)]
                             (TUnion [tref ''Error'', TNull])]) ''bivarianceHack''),
     DAlias ''ValidationMap'' [tp ''T'']
       (TMapped ''K'' (TKeyof (tref ''T'')) True (TRef ''Validator'' [tref ''T'']))]"

definition react_decls :: "decl list" where
  "react_decls =
     native_aliases @ element_decls @ factory_decls @ node_decls @ function_decls
       @ const_decls @ component_decls @ class_interface_decls @ lifecycle_decls
       @ other_alias_decls"

text \<open>The file has no import and no statement; it exports the namespace.\<close>

definition react_index_d_ts :: source_file where
  "react_index_d_ts = SourceFile ''types/react/v15/index.d.ts'' [] react_decls []"

subsection \<open>Looking declarations up\<close>

fun alias_of :: "decl list \<Rightarrow> string \<Rightarrow> (tparam list \<times> ty) option" where
  "alias_of [] n = None"
| "alias_of (DAlias m tps t # ds) n = (if m = n then Some (tps, t) else alias_of ds n)"
| "alias_of (_ # ds) n = alias_of ds n"

fun interface_of :: "decl list \<Rightarrow> string \<Rightarrow> (tparam list \<times> ty list \<times> member list) option" where
  "interface_of [] n = None"
| "interface_of (DInterface m tps exts ms # ds) n =
     (if m = n then Some (tps, exts, ms) else interface_of ds n)"
| "interface_of (_ # ds) n = interface_of ds n"

fun class_of :: "decl list \<Rightarrow> string \<Rightarrow> (tparam list \<times> ty list \<times> class_member list) option" where
  "class_of [] n = None"
| "class_of (DClass m tps exts impls ms # ds) n =
     (if m = n then Some (tps, exts, ms) else class_of ds n)"
| "class_of (_ # ds) n = class_of ds n"

text \<open>
  The instance side of a class member is a signature. An interface and a class of one name
  merge into one type (\<^verbatim>\<open>Component\<close> is declared both ways): the members and the bases of both.
\<close>

fun class_sig :: "class_member \<Rightarrow> member list" where
  "class_sig (CProp n opt t) = [PropSig n opt t]"
| "class_sig (CMethod n kind tps ps r body) = [MethodSig n False tps ps r]"
| "class_sig (CCtor ps body) = []"

definition object_decl ::
  "decl list \<Rightarrow> string \<Rightarrow> (tparam list \<times> ty list \<times> member list) option" where
  "object_decl ds n =
     (case (interface_of ds n, class_of ds n) of
        (Some (tps, exts, ms), Some (ctps, cexts, cms)) \<Rightarrow>
          Some (tps, exts @ cexts, ms @ concat (map class_sig cms))
      | (Some i, None) \<Rightarrow> Some i
      | (None, Some (ctps, cexts, cms)) \<Rightarrow> Some (ctps, cexts, concat (map class_sig cms))
      | (None, None) \<Rightarrow> None)"

subsection \<open>Instantiating type parameters\<close>

text \<open>
  \<open>bind\<close> pairs the type parameters of a declaration with the type arguments of a reference; a
  parameter without an argument takes its default. \<open>subst\<close> replaces the parameters in a type;
  the type parameters of a signature hide those of the same name outside it.
\<close>

fun bind :: "tparam list \<Rightarrow> ty list \<Rightarrow> (string \<times> ty) list" where
  "bind [] args = []"
| "bind (p # ps) [] =
     (case tp_default p of Some d \<Rightarrow> (tp_name p, d) # bind ps [] | None \<Rightarrow> bind ps [])"
| "bind (p # ps) (a # args) = (tp_name p, a) # bind ps args"

definition unbind :: "tparam list \<Rightarrow> (string \<times> ty) list \<Rightarrow> (string \<times> ty) list" where
  "unbind tps s = filter (\<lambda>kv. fst kv \<notin> set (map tp_name tps)) s"

fun subst :: "(string \<times> ty) list \<Rightarrow> ty \<Rightarrow> ty"
and subst_param :: "(string \<times> ty) list \<Rightarrow> param \<Rightarrow> param"
and subst_member :: "(string \<times> ty) list \<Rightarrow> member \<Rightarrow> member"
and subst_tparam :: "(string \<times> ty) list \<Rightarrow> tparam \<Rightarrow> tparam" where
  "subst s (TRef n args) =
     (case (map_of s n, args) of
        (Some t, []) \<Rightarrow> t
      | _ \<Rightarrow> TRef n (map (subst s) args))"
| "subst s (TUnion ts) = TUnion (map (subst s) ts)"
| "subst s (TInter ts) = TInter (map (subst s) ts)"
| "subst s (TArray t) = TArray (subst s t)"
| "subst s (TKeyof t) = TKeyof (subst s t)"
| "subst s (TIndexed t k) = TIndexed (subst s t) k"
| "subst s (TIs x t) = TIs x (subst s t)"
| "subst s (TMapped k src opt t) =
     TMapped k (subst s src) opt (subst (filter (\<lambda>kv. fst kv \<noteq> k) s) t)"
| "subst s (TObject ms) = TObject (map (subst_member s) ms)"
| "subst s (TFunc ps r) = TFunc (map (subst_param s) ps) (subst s r)"
| "subst s (TNew ps r) = TNew (map (subst_param s) ps) (subst s r)"
| "subst s TString = TString"
| "subst s TNumber = TNumber"
| "subst s TBoolean = TBoolean"
| "subst s TNull = TNull"
| "subst s TUndefined = TUndefined"
| "subst s TVoid = TVoid"
| "subst s TAny = TAny"
| "subst s (TStrLit l) = TStrLit l"
| "subst s (TNumLit n) = TNumLit n"
| "subst s (TBoolLit b) = TBoolLit b"
| "subst_param s (Param n opt rest t) = Param n opt rest (subst s t)"
| "subst_member s (PropSig n opt t) = PropSig n opt (subst s t)"
| "subst_member s (MethodSig n opt tps ps r) =
     MethodSig n opt (map (subst_tparam (unbind tps s)) tps)
       (map (subst_param (unbind tps s)) ps) (subst (unbind tps s) r)"
| "subst_member s (CallSig tps ps r) =
     CallSig (map (subst_tparam (unbind tps s)) tps)
       (map (subst_param (unbind tps s)) ps) (subst (unbind tps s) r)"
| "subst_member s (NewSig tps ps r) =
     NewSig (map (subst_tparam (unbind tps s)) tps)
       (map (subst_param (unbind tps s)) ps) (subst (unbind tps s) r)"
| "subst_member s (IndexSig k kt t) = IndexSig k (subst s kt) (subst s t)"
| "subst_tparam s (TParam n c d) = TParam n (map_option (subst s) c) (map_option (subst s) d)"

subsection \<open>The members of a type\<close>

text \<open>
  The members of a named type are its own and those of its bases, with the type arguments put
  in; a member of its own replaces an inherited property or method of the same name, and call
  signatures accumulate. An alias is followed to its body; a function type has one call
  signature. The first argument bounds the depth of the chain of bases and aliases: a lookup
  that goes deeper than that, or reaches a name that is not among the declarations, is an
  error and not a member list.
\<close>

datatype lookup_error = OutOfFuel | NotDeclared string | NotAnObjectType

fun collect :: "(lookup_error + 'a list) list \<Rightarrow> lookup_error + 'a list" where
  "collect [] = Inr []"
| "collect (Inl e # rs) = Inl e"
| "collect (Inr xs # rs) = (case collect rs of Inl e \<Rightarrow> Inl e | Inr ys \<Rightarrow> Inr (xs @ ys))"

fun member_name :: "member \<Rightarrow> string option" where
  "member_name (PropSig n opt t) = Some n"
| "member_name (MethodSig n opt tps ps r) = Some n"
| "member_name _ = None"

definition override :: "member list \<Rightarrow> member list \<Rightarrow> member list" where
  "override own inh =
     own @ filter (\<lambda>m. member_name m = None \<or> member_name m \<notin> set (map member_name own)) inh"

fun members_of :: "nat \<Rightarrow> decl list \<Rightarrow> ty \<Rightarrow> lookup_error + member list" where
  "members_of 0 ds t = Inl OutOfFuel"
| "members_of (Suc k) ds (TRef n args) =
     (case object_decl ds n of
        Some (tps, exts, ms) \<Rightarrow>
          (case collect (map (\<lambda>e. members_of k ds (subst (bind tps args) e)) exts) of
             Inl e \<Rightarrow> Inl e
           | Inr inh \<Rightarrow> Inr (override (map (subst_member (bind tps args)) ms) inh))
      | None \<Rightarrow>
          (case alias_of ds n of
             Some (tps, body) \<Rightarrow> members_of k ds (subst (bind tps args) body)
           | None \<Rightarrow> Inl (NotDeclared n)))"
| "members_of (Suc k) ds (TObject ms) = Inr ms"
| "members_of (Suc k) ds (TFunc ps r) = Inr [CallSig [] ps r]"
| "members_of (Suc k) ds (TInter ts) = collect (map (members_of k ds) ts)"
| "members_of (Suc k) ds _ = Inl NotAnObjectType"


fun method_in :: "member list \<Rightarrow> string \<Rightarrow> (tparam list \<times> param list \<times> ty) option" where
  "method_in [] n = None"
| "method_in (MethodSig m opt tps ps r # ms) n =
     (if m = n then Some (tps, ps, r) else method_in ms n)"
| "method_in (_ # ms) n = method_in ms n"



definition method_return :: "nat \<Rightarrow> decl list \<Rightarrow> ty \<Rightarrow> string \<Rightarrow> lookup_error + ty option" where
  "method_return k ds t n =
     (case members_of k ds t of
        Inl e \<Rightarrow> Inl e
      | Inr ms \<Rightarrow> Inr (map_option (\<lambda>sg. snd (snd sg)) (method_in ms n)))"

subsection \<open>The primitive values of a type\<close>

text \<open>
  Which primitive values a type holds, with null checking on (as the configuration sets it):
  \<^verbatim>\<open>null\<close> and \<^verbatim>\<open>undefined\<close> belong only to the types that name them. A literal type holds
  its literal, a union what one of its members holds, an intersection what all of them hold,
  the empty object type \<^verbatim>\<open>{}\<close> every value but \<^verbatim>\<open>null\<close> and \<^verbatim>\<open>undefined\<close>, an alias what its
  body holds. Interfaces, classes, object types with members, function types and arrays hold
  objects, so no primitive value; a name that is not an alias among the declarations is taken
  for one of them. The first argument bounds the depth of the alias chain.
\<close>

datatype jsval = VUndefined | VNull | VBool bool | VNum real | VStr string

fun is_str :: "jsval \<Rightarrow> bool" where
  "is_str (VStr s) = True"
| "is_str _ = False"

fun is_num :: "jsval \<Rightarrow> bool" where
  "is_num (VNum x) = True"
| "is_num _ = False"

fun is_bool :: "jsval \<Rightarrow> bool" where
  "is_bool (VBool b) = True"
| "is_bool _ = False"

fun has_type :: "nat \<Rightarrow> decl list \<Rightarrow> jsval \<Rightarrow> ty \<Rightarrow> bool" where
  "has_type k ds v TAny = True"
| "has_type k ds v TString = is_str v"
| "has_type k ds v TNumber = is_num v"
| "has_type k ds v TBoolean = is_bool v"
| "has_type k ds v TNull = (v = VNull)"
| "has_type k ds v TUndefined = (v = VUndefined)"
| "has_type k ds v TVoid = (v = VUndefined)"
| "has_type k ds v (TStrLit s) = (v = VStr s)"
| "has_type k ds v (TNumLit n) = (v = VNum (of_int n))"
| "has_type k ds v (TBoolLit b) = (v = VBool b)"
| "has_type k ds v (TUnion ts) = (\<exists>t\<in>set ts. has_type k ds v t)"
| "has_type k ds v (TInter ts) = (\<forall>t\<in>set ts. has_type k ds v t)"
| "has_type k ds v (TObject ms) = (ms = [] \<and> v \<noteq> VNull \<and> v \<noteq> VUndefined)"
| "has_type 0 ds v (TRef n args) = False"
| "has_type (Suc k) ds v (TRef n args) =
     (case alias_of ds n of
        Some (tps, body) \<Rightarrow> has_type k ds v (subst (bind tps args) body)
      | None \<Rightarrow> False)"
| "has_type k ds v _ = False"

subsection \<open>The fixtures\<close>

text \<open>
  The cookie fixture (the unnamed source file): two classes, then statements, one of them under
  \<^verbatim>\<open>// @ts-expect-error\<close>. The zip fixture (\<^verbatim>\<open>yazl-tests.ts\<close>, lines 1 to 36): two imports,
  then statements, two of them under \<^verbatim>\<open>// $ExpectType\<close>. Each statement is paired with the
  directive on the line before it.
\<close>

abbreviation cookie :: expr where
  "cookie \<equiv> EMember (EIdent ''$'') ''cookie''"

abbreviation console_log :: expr where
  "console_log \<equiv> EMember (EIdent ''console'') ''log''"

definition TestObject_class :: decl where
  "TestObject_class =
     DClass ''TestObject'' [] [] []
       [CProp ''text'' False TString,
        CProp ''value'' False TNumber,
        CCtor [par ''text'' TString, par ''value'' TNumber]
          (Some [SAssign (EMember EThis ''text'') (EIdent ''text''),
                 SAssign (EMember EThis ''value'') (EIdent ''value'')])]"

definition CookieOptions_class :: decl where
  "CookieOptions_class =
     DClass ''CookieOptions'' [] [] [tref ''JQueryCookieOptions'']
       [CProp ''expires'' False TNumber,
        CProp ''path'' False TString,
        CProp ''domain'' False TString,
        CProp ''secure'' False TBoolean]"

definition cookie_stmts :: "(directive option \<times> stmt) list" where
  "cookie_stmts =
    [(None, SExpr (ECall cookie [EStr ''the_cookie'', EStr ''the_value''])),
     (None, SExpr (ECall cookie [EStr ''the_cookie'', EStr ''the_value'',
                                 EObj [PropInit ''expires'' (ENum 7)]])),
     (None, SExpr (ECall cookie [EStr ''the_cookie'', EStr ''the_value'',
                                 EObj [PropInit ''expires'' (ENew ''Date'' [])]])),
     (Some TsExpectError,
        SExpr (ECall cookie [EStr ''the_cookie'', EStr ''the_value'',
                             EObj [PropInit ''expires'' (EStr ''tomorrow'')]])),
     (None, SExpr (ECall console_log [ECall cookie [EStr ''the_cookie'']])),
     (None, SVar ''var'' ''testObject'' (ENew ''TestObject'' [EStr ''Hello World'', ENum 5])),
     (None, SVar ''var'' ''cookieOptions'' (ENew ''CookieOptions'' [])),
     (None, SAssign (EMember (EIdent ''cookieOptions'') ''path'') (EStr ''/'')),
     (None, SAssign (EMember (EIdent ''cookieOptions'') ''domain'') (EStr ''jquery.com'')),
     (None, SAssign (EMember cookie ''json'') (EBool True)),
     (None, SExpr (ECall cookie [EStr ''test'', EIdent ''testObject'', EIdent ''cookieOptions''])),
     (None, SVar ''var'' ''result'' (ECast (tref ''TestObject'') (ECall cookie [EStr ''test'']))),
     (None, SExpr (ECall console_log [EMember (EIdent ''result'') ''text''])),
     (None, SAssign (EMember cookie ''defaults'') (EIdent ''cookieOptions''))]"

definition cookie_tests :: source_file where
  "cookie_tests =
     SourceFile ''unnamed/part_000'' [] [TestObject_class, CookieOptions_class] cookie_stmts"

abbreviation zipfile :: expr where
  "zipfile \<equiv> EIdent ''zipfile''"

abbreviation stdin :: expr where
  "stdin \<equiv> EMember (EIdent ''process'') ''stdin''"

abbreviation file_options :: expr where
  "file_options \<equiv>
     EObj [PropInit ''mtime'' (ENew ''Date'' []),
           PropInit ''mode'' (ECall (EIdent ''parseInt'') [EStr ''0100664'', ENum 8])]"

definition error_handler :: expr where
  "error_handler =
     EArrow Plain [''err'']
       [SExpr (ECall (EMember (EIdent ''console'') ''error'') [EStr ''error'', EIdent ''err''])]"

definition yazl_stmts :: "(directive option \<times> stmt) list" where
  "yazl_stmts =
    [(None, SVar ''const'' ''zipfile'' (ENew ''ZipFile'' [])),
     (None, SExpr (ECall (EMember zipfile ''addFile'') [EStr ''file1.txt'', EStr ''file1.txt''])),
     (None, SExpr (ECall (EMember zipfile ''addFile'')
                     [EStr ''path/to/file.txt'', EStr ''path/in/zipfile.txt''])),
     (Some (ExpectType ''ReadableStream''), SExpr (EMember zipfile ''outputStream'')),
     (Some (ExpectType ''ZipFile''),
        SExpr (ECall (EMember zipfile ''on'') [EStr ''error'', error_handler])),
     (None, SExpr (ECall
        (EMember (ECall (EMember (EMember zipfile ''outputStream'') ''pipe'')
                    [ECall (EMember (EIdent ''fs'') ''createWriteStream'') [EStr ''output.zip'']])
           ''on'')
        [EStr ''close'', EArrow Plain [] [SExpr (ECall console_log [EStr ''done''])]])),
     (None, SExpr (ECall (EMember zipfile ''addReadStream'')
                     [stdin, EStr ''stdin.txt'', file_options])),
     (None, SExpr (ECall (EMember zipfile ''addReadStreamLazy'')
                     [EStr ''stdin.txt'',
                      EArrowExpr Plain [''cb''] (ECall (EIdent ''cb'') [ENull, stdin])])),
     (None, SExpr (ECall (EMember zipfile ''addReadStreamLazy'')
                     [EStr ''stdin.txt'', file_options,
                      EArrowExpr Plain [''cb''] (ECall (EIdent ''cb'') [EObj [], stdin])])),
     (None, SExpr (ECall (EMember zipfile ''addBuffer'')
                     [ENew ''Buffer'' [EStr ''hello''], EStr ''hello.txt'', file_options])),
     (None, SExpr (ECall (EMember zipfile ''end'') []))]"

definition yazl_tests :: source_file where
  "yazl_tests =
     SourceFile ''types/yazl/yazl-tests.ts''
       [ImportNamed [''ZipFile''] ''yazl'', ImportRequire ''fs'' ''fs''] [] yazl_stmts"

definition repository_files :: "source_file list" where
  "repository_files = [react_index_d_ts, cookie_tests, yazl_tests]"

subsection \<open>Traversing statements and expressions\<close>

text \<open>
  All expressions of an expression, a property initialiser or a statement, the outer one
  first, and all statements of a statement; both go into the bodies of arrow functions.
\<close>

fun exprs_of :: "expr \<Rightarrow> expr list"
and exprs_of_prop :: "prop_init \<Rightarrow> expr list"
and exprs_of_stmt :: "stmt \<Rightarrow> expr list" where
  "exprs_of (EIdent n) = [EIdent n]"
| "exprs_of EThis = [EThis]"
| "exprs_of (EStr s) = [EStr s]"
| "exprs_of (ENum n) = [ENum n]"
| "exprs_of (EBool b) = [EBool b]"
| "exprs_of ENull = [ENull]"
| "exprs_of (EMember e m) = EMember e m # exprs_of e"
| "exprs_of (ECall f args) = ECall f args # exprs_of f @ concat (map exprs_of args)"
| "exprs_of (ENew c args) = ENew c args # concat (map exprs_of args)"
| "exprs_of (EObj ps) = EObj ps # concat (map exprs_of_prop ps)"
| "exprs_of (EArrow k ps body) = EArrow k ps body # concat (map exprs_of_stmt body)"
| "exprs_of (EArrowExpr k ps e) = EArrowExpr k ps e # exprs_of e"
| "exprs_of (ECast t e) = ECast t e # exprs_of e"
| "exprs_of (EBinary opr a b) = EBinary opr a b # exprs_of a @ exprs_of b"
| "exprs_of_prop (PropInit n e) = exprs_of e"
| "exprs_of_stmt (SExpr e) = exprs_of e"
| "exprs_of_stmt (SAssign t e) = exprs_of t @ exprs_of e"
| "exprs_of_stmt (SVar kw n e) = exprs_of e"
| "exprs_of_stmt (SReturn e) = exprs_of e"
| "exprs_of_stmt (SIf c a b) =
     exprs_of c @ concat (map exprs_of_stmt a) @ concat (map exprs_of_stmt b)"
| "exprs_of_stmt (SWhile c a) = exprs_of c @ concat (map exprs_of_stmt a)"
| "exprs_of_stmt (SThrow e) = exprs_of e"
| "exprs_of_stmt (STry a x b) = concat (map exprs_of_stmt a) @ concat (map exprs_of_stmt b)"

fun stmts_of :: "stmt \<Rightarrow> stmt list"
and stmts_in :: "expr \<Rightarrow> stmt list"
and stmts_in_prop :: "prop_init \<Rightarrow> stmt list" where
  "stmts_of (SExpr e) = SExpr e # stmts_in e"
| "stmts_of (SAssign t e) = SAssign t e # stmts_in t @ stmts_in e"
| "stmts_of (SVar kw n e) = SVar kw n e # stmts_in e"
| "stmts_of (SReturn e) = SReturn e # stmts_in e"
| "stmts_of (SIf c a b) =
     SIf c a b # stmts_in c @ concat (map stmts_of a) @ concat (map stmts_of b)"
| "stmts_of (SWhile c a) = SWhile c a # stmts_in c @ concat (map stmts_of a)"
| "stmts_of (SThrow e) = SThrow e # stmts_in e"
| "stmts_of (STry a x b) = STry a x b # concat (map stmts_of a) @ concat (map stmts_of b)"
| "stmts_in (EMember e m) = stmts_in e"
| "stmts_in (ECall f args) = stmts_in f @ concat (map stmts_in args)"
| "stmts_in (ENew c args) = concat (map stmts_in args)"
| "stmts_in (EObj ps) = concat (map stmts_in_prop ps)"
| "stmts_in (EArrow k ps body) = concat (map stmts_of body)"
| "stmts_in (EArrowExpr k ps e) = stmts_in e"
| "stmts_in (ECast t e) = stmts_in e"
| "stmts_in (EBinary opr a b) = stmts_in a @ stmts_in b"
| "stmts_in (EIdent n) = []"
| "stmts_in EThis = []"
| "stmts_in (EStr s) = []"
| "stmts_in (ENum n) = []"
| "stmts_in (EBool b) = []"
| "stmts_in ENull = []"
| "stmts_in_prop (PropInit n e) = stmts_in e"

text \<open>The bodies that the declarations of a file carry, and with them all its code.\<close>

fun class_member_body :: "class_member \<Rightarrow> stmt list" where
  "class_member_body (CCtor ps (Some body)) = body"
| "class_member_body (CMethod n k tps ps r (Some body)) = body"
| "class_member_body _ = []"

fun decl_body :: "decl \<Rightarrow> stmt list" where
  "decl_body (DFunction n k tps ps r (Some body)) = body"
| "decl_body (DClass n tps exts impls ms) = concat (map class_member_body ms)"
| "decl_body _ = []"

definition file_code :: "source_file \<Rightarrow> stmt list" where
  "file_code f = concat (map decl_body (sf_decls f)) @ map snd (sf_stmts f)"

definition file_stmts :: "source_file \<Rightarrow> stmt list" where
  "file_stmts f = concat (map stmts_of (file_code f))"

definition file_exprs :: "source_file \<Rightarrow> expr list" where
  "file_exprs f = concat (map exprs_of_stmt (file_code f))"

subsection \<open>Functions and their bodies\<close>

text \<open>
  The functions of a file, each with its kind and its body if it has one: the declared
  functions, the constructors and methods of the classes, and the arrow functions in the
  code; an arrow function with an expression body returns that expression.
\<close>

fun class_functions :: "string \<Rightarrow> class_member \<Rightarrow> (string \<times> fn_kind \<times> stmt list option) list" where
  "class_functions c (CCtor ps body) = [(c @ ''.constructor'', Plain, body)]"
| "class_functions c (CMethod n k tps ps r body) = [(c @ ''.'' @ n, k, body)]"
| "class_functions c (CProp n opt t) = []"

fun decl_functions :: "decl \<Rightarrow> (string \<times> fn_kind \<times> stmt list option) list" where
  "decl_functions (DFunction n k tps ps r body) = [(n, k, body)]"
| "decl_functions (DClass n tps exts impls ms) = concat (map (class_functions n) ms)"
| "decl_functions _ = []"

fun arrow_function :: "expr \<Rightarrow> (string \<times> fn_kind \<times> stmt list option) list" where
  "arrow_function (EArrow k ps body) = [(''=>'', k, Some body)]"
| "arrow_function (EArrowExpr k ps e) = [(''=>'', k, Some [SReturn e])]"
| "arrow_function _ = []"

definition file_functions :: "source_file \<Rightarrow> (string \<times> fn_kind \<times> stmt list option) list" where
  "file_functions f =
     concat (map decl_functions (sf_decls f)) @ concat (map arrow_function (file_exprs f))"

definition signature_only :: "string \<times> fn_kind \<times> stmt list option \<Rightarrow> bool" where
  "signature_only fn = (snd (snd fn) = None)"

definition coroutine :: "string \<times> fn_kind \<times> stmt list option \<Rightarrow> bool" where
  "coroutine fn = (fst (snd fn) \<noteq> Plain)"

abbreviation TestObject_constructor :: "string \<times> fn_kind \<times> stmt list option" where
  "TestObject_constructor \<equiv>
     (''TestObject.constructor'', Plain,
      Some [SAssign (EMember EThis ''text'') (EIdent ''text''),
            SAssign (EMember EThis ''value'') (EIdent ''value'')])"

subsection \<open>Names used and names declared\<close>

text \<open>
  The names a type expression refers to; the names a file uses (identifiers, constructed
  classes, the types of its declarations and casts) and those it declares or binds (imports,
  declarations, variables, parameters, type parameters). The names it uses without declaring
  them come from elsewhere: another file or the platform.
\<close>

fun refs_ty :: "ty \<Rightarrow> string list"
and refs_param :: "param \<Rightarrow> string list"
and refs_member :: "member \<Rightarrow> string list"
and refs_tparam :: "tparam \<Rightarrow> string list" where
  "refs_ty (TRef n args) = n # concat (map refs_ty args)"
| "refs_ty (TUnion ts) = concat (map refs_ty ts)"
| "refs_ty (TInter ts) = concat (map refs_ty ts)"
| "refs_ty (TArray t) = refs_ty t"
| "refs_ty (TKeyof t) = refs_ty t"
| "refs_ty (TIndexed t k) = refs_ty t"
| "refs_ty (TIs x t) = refs_ty t"
| "refs_ty (TMapped k src opt t) = refs_ty src @ filter (\<lambda>n. n \<noteq> k) (refs_ty t)"
| "refs_ty (TObject ms) = concat (map refs_member ms)"
| "refs_ty (TFunc ps r) = concat (map refs_param ps) @ refs_ty r"
| "refs_ty (TNew ps r) = concat (map refs_param ps) @ refs_ty r"
| "refs_ty TString = []"
| "refs_ty TNumber = []"
| "refs_ty TBoolean = []"
| "refs_ty TNull = []"
| "refs_ty TUndefined = []"
| "refs_ty TVoid = []"
| "refs_ty TAny = []"
| "refs_ty (TStrLit l) = []"
| "refs_ty (TNumLit n) = []"
| "refs_ty (TBoolLit b) = []"
| "refs_param (Param n opt rest t) = refs_ty t"
| "refs_member (PropSig n opt t) = refs_ty t"
| "refs_member (MethodSig n opt tps ps r) =
     concat (map refs_tparam tps) @ concat (map refs_param ps) @ refs_ty r"
| "refs_member (CallSig tps ps r) =
     concat (map refs_tparam tps) @ concat (map refs_param ps) @ refs_ty r"
| "refs_member (NewSig tps ps r) =
     concat (map refs_tparam tps) @ concat (map refs_param ps) @ refs_ty r"
| "refs_member (IndexSig k kt t) = refs_ty kt @ refs_ty t"
| "refs_tparam (TParam n c d) =
     (case c of None \<Rightarrow> [] | Some t \<Rightarrow> refs_ty t) @ (case d of None \<Rightarrow> [] | Some t \<Rightarrow> refs_ty t)"

fun expr_uses :: "expr \<Rightarrow> string list" where
  "expr_uses (EIdent n) = [n]"
| "expr_uses (ENew c args) = [c]"
| "expr_uses (ECast t e) = refs_ty t"
| "expr_uses _ = []"

fun expr_binds :: "expr \<Rightarrow> string list" where
  "expr_binds (EArrow k ps body) = ps"
| "expr_binds (EArrowExpr k ps e) = ps"
| "expr_binds _ = []"

fun stmt_binds :: "stmt \<Rightarrow> string list" where
  "stmt_binds (SVar kw n e) = [n]"
| "stmt_binds (STry a x b) = [x]"
| "stmt_binds _ = []"

fun class_member_refs :: "class_member \<Rightarrow> string list" where
  "class_member_refs (CProp n opt t) = refs_ty t"
| "class_member_refs (CCtor ps body) = concat (map refs_param ps)"
| "class_member_refs (CMethod n k tps ps r body) =
     concat (map refs_tparam tps) @ concat (map refs_param ps) @ refs_ty r"

fun class_member_binds :: "class_member \<Rightarrow> string list" where
  "class_member_binds (CProp n opt t) = []"
| "class_member_binds (CCtor ps body) = map p_name ps"
| "class_member_binds (CMethod n k tps ps r body) = map tp_name tps @ map p_name ps"

fun decl_name :: "decl \<Rightarrow> string" where
  "decl_name (DAlias n tps t) = n"
| "decl_name (DInterface n tps exts ms) = n"
| "decl_name (DClass n tps exts impls ms) = n"
| "decl_name (DFunction n k tps ps r body) = n"
| "decl_name (DConst n t) = n"

fun decl_used :: "decl \<Rightarrow> string list" where
  "decl_used (DAlias n tps t) = concat (map refs_tparam tps) @ refs_ty t"
| "decl_used (DInterface n tps exts ms) =
     concat (map refs_tparam tps) @ concat (map refs_ty exts) @ concat (map refs_member ms)"
| "decl_used (DClass n tps exts impls ms) =
     concat (map refs_tparam tps) @ concat (map refs_ty exts) @ concat (map refs_ty impls)
       @ concat (map class_member_refs ms)"
| "decl_used (DFunction n k tps ps r body) =
     concat (map refs_tparam tps) @ concat (map refs_param ps) @ refs_ty r"
| "decl_used (DConst n t) = refs_ty t"

fun decl_bound :: "decl \<Rightarrow> string list" where
  "decl_bound (DAlias n tps t) = map tp_name tps"
| "decl_bound (DInterface n tps exts ms) = map tp_name tps"
| "decl_bound (DClass n tps exts impls ms) =
     map tp_name tps @ concat (map class_member_binds ms)"
| "decl_bound (DFunction n k tps ps r body) = map tp_name tps @ map p_name ps"
| "decl_bound (DConst n t) = []"

fun import_bindings :: "import_decl \<Rightarrow> string list" where
  "import_bindings (ImportNamed ns m) = ns"
| "import_bindings (ImportRequire n m) = [n]"

fun import_module :: "import_decl \<Rightarrow> string" where
  "import_module (ImportNamed ns m) = m"
| "import_module (ImportRequire n m) = m"

definition declared_names :: "source_file \<Rightarrow> string list" where
  "declared_names f =
     concat (map import_bindings (sf_imports f))
     @ map decl_name (sf_decls f) @ concat (map decl_bound (sf_decls f))
     @ concat (map stmt_binds (file_stmts f)) @ concat (map expr_binds (file_exprs f))"

definition used_names :: "source_file \<Rightarrow> string list" where
  "used_names f =
     concat (map decl_used (sf_decls f)) @ concat (map expr_uses (file_exprs f))"

definition external_names :: "source_file \<Rightarrow> string list" where
  "external_names f = remdups (filter (\<lambda>n. n \<notin> set (declared_names f)) (used_names f))"

subsection \<open>The type graph\<close>

text \<open>
  One declaration refers to another when it names it in its body, its bases or its members
  (its own type parameters apart). A cycle is a path of such references that returns to its
  start.
\<close>

definition decl_refs :: "decl \<Rightarrow> string list" where
  "decl_refs d = filter (\<lambda>n. n \<notin> set (decl_bound d)) (decl_used d)"

definition refers :: "decl list \<Rightarrow> string \<Rightarrow> string \<Rightarrow> bool" where
  "refers ds a b = (\<exists>d\<in>set ds. decl_name d = a \<and> b \<in> set (decl_refs d))"

fun chain :: "decl list \<Rightarrow> string list \<Rightarrow> bool" where
  "chain ds (a # b # rest) = (refers ds a b \<and> chain ds (b # rest))"
| "chain ds _ = True"

definition is_cycle :: "decl list \<Rightarrow> string list \<Rightarrow> bool" where
  "is_cycle ds p = (p \<noteq> [] \<and> chain ds (p @ [hd p]))"

subsection \<open>What the code of a fixture does\<close>

text \<open>
  The forms by which code would check a computed result or handle an error: a comparison or
  other binary operation, a branch or a loop, a \<^verbatim>\<open>throw\<close>, a \<^verbatim>\<open>try\<close>. The functions a file
  calls are named by the path of the callee (\<^verbatim>\<open>zipfile.outputStream.pipe().on\<close>). An assignment changes state outside the file when
  the root of its target is a name the file does not declare.
\<close>

fun is_comparison :: "expr \<Rightarrow> bool" where
  "is_comparison (EBinary opr a b) = True"
| "is_comparison _ = False"

fun is_branch :: "stmt \<Rightarrow> bool" where
  "is_branch (SIf c a b) = True"
| "is_branch (SWhile c a) = True"
| "is_branch _ = False"

fun is_error_handling :: "stmt \<Rightarrow> bool" where
  "is_error_handling (SThrow e) = True"
| "is_error_handling (STry a x b) = True"
| "is_error_handling _ = False"

fun access_path :: "expr \<Rightarrow> string" where
  "access_path (EIdent n) = n"
| "access_path EThis = ''this''"
| "access_path (EMember e m) = access_path e @ ''.'' @ m"
| "access_path (ECall f args) = access_path f @ ''()''"
| "access_path _ = ''?''"

fun expr_call :: "expr \<Rightarrow> string list" where
  "expr_call (ECall f args) = [access_path f]"
| "expr_call _ = []"

definition file_calls :: "source_file \<Rightarrow> string list" where
  "file_calls f = remdups (concat (map expr_call (file_exprs f)))"

fun root_name :: "expr \<Rightarrow> string option" where
  "root_name (EIdent n) = Some n"
| "root_name (EMember e m) = root_name e"
| "root_name _ = None"

fun assignment_target :: "stmt \<Rightarrow> expr list" where
  "assignment_target (SAssign t e) = [t]"
| "assignment_target _ = []"

definition global_assignments :: "source_file \<Rightarrow> string list" where
  "global_assignments f =
     map access_path
       (filter (\<lambda>t. case root_name t of
                       Some n \<Rightarrow> n \<notin> set (declared_names f)
                     | None \<Rightarrow> False)
          (concat (map assignment_target (file_stmts f))))"

subsection \<open>Errors at run time\<close>





subsection \<open>Assignability\<close>

text \<open>
  Whether the checker lets a value of type \<open>s\<close> be given where type \<open>t\<close> is expected, with null
  checking on (\<^verbatim>\<open>null\<close> and \<^verbatim>\<open>undefined\<close> fit only the types that name them, and \<^verbatim>\<open>undefined\<close>
  fits \<^verbatim>\<open>void\<close>). The checker is not among the source files; these are its rules for the
  types that the fixtures and the examples of the declaration file use. A type fits itself,
  and \<^verbatim>\<open>any\<close> goes both ways. A verdict is \<open>Inr True\<close> (accepted),
  \<open>Inr False\<close> (rejected) or an error: a type whose declaration is not at hand, a depth
  exceeded, or a pair of types for which the rules below say nothing (\<open>Unsupported\<close>). In a
  conjunction of verdicts one rejection decides, in a disjunction one acceptance; an error
  counts only when nothing decides.
\<close>

datatype check_error = Lookup lookup_error | Unsupported

type_synonym verdict = "check_error + bool"

fun every :: "verdict list \<Rightarrow> verdict" where
  "every [] = Inr True"
| "every (Inr False # vs) = Inr False"
| "every (Inr True # vs) = every vs"
| "every (Inl e # vs) = (case every vs of Inr False \<Rightarrow> Inr False | _ \<Rightarrow> Inl e)"

fun any_of :: "verdict list \<Rightarrow> verdict" where
  "any_of [] = Inr False"
| "any_of (Inr True # vs) = Inr True"
| "any_of (Inr False # vs) = any_of vs"
| "any_of (Inl e # vs) = (case any_of vs of Inr True \<Rightarrow> Inr True | _ \<Rightarrow> Inl e)"

text \<open>
  The rules go by the shape of a type. \<^verbatim>\<open>boolean\<close> is the union of \<^verbatim>\<open>true\<close> and \<^verbatim>\<open>false\<close>. A
  reference to an alias stands for the body of the alias. An object type, a declared interface
  or class and an intersection have members (those of \<open>members_of\<close>). A name without a
  declaration is opaque: a type parameter, or a class or interface of the platform or of
  another library (\<^verbatim>\<open>Date\<close>, \<^verbatim>\<open>HTMLElement\<close>). Arrays, function types and constructor types
  are objects whose members the model does not spell out. The remaining forms (\<^verbatim>\<open>keyof\<close>,
  indexed access, mapped types, type predicates) are not compared, nor is an intersection in
  which two members have the same name.
\<close>

datatype shape =
    Primitive | Nullish | Members "member list" | Opaque string | Structure
  | Union_of "ty list" | Alias ty | Failed lookup_error | Exotic

fun shape_of :: "nat \<Rightarrow> decl list \<Rightarrow> ty \<Rightarrow> shape" where
  "shape_of k ds TString = Primitive"
| "shape_of k ds TNumber = Primitive"
| "shape_of k ds (TStrLit l) = Primitive"
| "shape_of k ds (TNumLit n) = Primitive"
| "shape_of k ds (TBoolLit b) = Primitive"
| "shape_of k ds TBoolean = Union_of [TBoolLit True, TBoolLit False]"
| "shape_of k ds TNull = Nullish"
| "shape_of k ds TUndefined = Nullish"
| "shape_of k ds TVoid = Nullish"
| "shape_of k ds (TUnion ts) = Union_of ts"
| "shape_of k ds (TObject ms) = Members ms"
| "shape_of k ds (TRef n args) =
     (case alias_of ds n of
        Some (tps, body) \<Rightarrow> Alias (subst (bind tps args) body)
      | None \<Rightarrow>
          (case object_decl ds n of
             None \<Rightarrow> Opaque n
           | Some d \<Rightarrow>
               (case members_of k ds (TRef n args) of
                  Inl e \<Rightarrow> Failed e
                | Inr ms \<Rightarrow> Members ms)))"
| "shape_of k ds (TInter ts) =
     (case members_of k ds (TInter ts) of
        Inl e \<Rightarrow> Failed e
      | Inr ms \<Rightarrow>
          if distinct (filter (\<lambda>n. n \<noteq> None) (map member_name ms)) then Members ms else Exotic)"
| "shape_of k ds (TArray t) = Structure"
| "shape_of k ds (TFunc ps r) = Structure"
| "shape_of k ds (TNew ps r) = Structure"
| "shape_of k ds t = Exotic"

text \<open>
  A literal type widens to its primitive type. Of the opaque names the model knows one:
  \<^verbatim>\<open>Date\<close>, the class of the platform that both fixtures construct with \<^verbatim>\<open>new\<close>; its instances
  are objects with methods of their own, so that neither a primitive type nor \<^verbatim>\<open>null\<close> or
  \<^verbatim>\<open>undefined\<close> fits it. What fits another opaque name is not decided.
\<close>

fun is_strlit :: "ty \<Rightarrow> bool" where
  "is_strlit (TStrLit l) = True"
| "is_strlit _ = False"

fun is_numlit :: "ty \<Rightarrow> bool" where
  "is_numlit (TNumLit n) = True"
| "is_numlit _ = False"

definition widens :: "ty \<Rightarrow> ty \<Rightarrow> bool" where
  "widens s t \<longleftrightarrow> (t = TString \<and> is_strlit s) \<or> (t = TNumber \<and> is_numlit s)"

definition platform_classes :: "string list" where
  "platform_classes = [''Date'']"

text \<open>
  Members are found by name, a method like a property. Of two object types the source fits
  the target when
  \<^item> no required member of the target is missing in the source;
  \<^item> the target is not weak (all its members optional) or the source has no property or
    shares one with it;
  \<^item> every member of the target that the source has is fitted by the source's member of that
    name: not optional where the target requires it, and of a type that fits (an optional
    target takes \<^verbatim>\<open>undefined\<close> too). A method without type parameters is compared as a property
    of function type; two function types, two constructor types and two generic methods fit
    when they are the same, and are otherwise not compared; the same holds for call,
    construct and index signatures.
\<close>

fun named_member :: "member list \<Rightarrow> string \<Rightarrow> member option" where
  "named_member [] n = None"
| "named_member (m # ms) n = (if member_name m = Some n then Some m else named_member ms n)"

fun optional :: "member \<Rightarrow> bool" where
  "optional (PropSig n opt t) = opt"
| "optional (MethodSig n opt tps ps r) = opt"
| "optional _ = False"

fun indexed :: "member \<Rightarrow> bool" where
  "indexed (IndexSig x kt t) = True"
| "indexed _ = False"

definition lacks :: "member list \<Rightarrow> member \<Rightarrow> bool" where
  "lacks sm m \<longleftrightarrow> (case member_name m of Some n \<Rightarrow> named_member sm n = None | None \<Rightarrow> False)"

definition missing :: "member list \<Rightarrow> member list \<Rightarrow> member list" where
  "missing sm tm = filter (\<lambda>m. \<not> optional m \<and> lacks sm m) tm"

definition weak :: "member list \<Rightarrow> bool" where
  "weak tm \<longleftrightarrow> tm \<noteq> [] \<and> list_all (\<lambda>m. member_name m \<noteq> None \<and> optional m) tm"

definition shared :: "member list \<Rightarrow> member list \<Rightarrow> member list" where
  "shared sm tm = filter (\<lambda>m. member_name m \<noteq> None \<and> \<not> lacks sm m) tm"

fun as_property :: "member \<Rightarrow> ty option" where
  "as_property (PropSig n opt t) = Some t"
| "as_property (MethodSig n opt tps ps r) = (if tps = [] then Some (TFunc ps r) else None)"
| "as_property _ = None"

text \<open>
  What the comparison of two types takes: a verdict at once, or the comparison of other types
  (every member of a union source, one member of a union target, the body of an alias, the
  elements of two arrays), or the comparison of the members of two object types.
\<close>

datatype plan =
    Decided verdict
  | Every_source "ty list"
  | One_target "ty list"
  | Again ty ty
  | Both "member list" "member list"

fun element :: "ty \<Rightarrow> ty option" where
  "element (TArray t) = Some t"
| "element t = None"

fun compare_shapes :: "ty \<Rightarrow> ty \<Rightarrow> shape \<Rightarrow> shape \<Rightarrow> plan" where
  "compare_shapes s t (Opaque n) Primitive = Decided (Inl (Lookup (NotDeclared n)))"
| "compare_shapes s t src Primitive = Decided (Inr (src = Primitive \<and> widens s t))"
| "compare_shapes s t (Opaque n) Nullish = Decided (Inl (Lookup (NotDeclared n)))"
| "compare_shapes s t src Nullish = Decided (Inr (s = TUndefined \<and> t = TVoid))"
| "compare_shapes s t src (Opaque m) =
     Decided (if (src = Primitive \<or> src = Nullish) \<and> m \<in> set platform_classes then Inr False
              else Inl (Lookup (NotDeclared m)))"
| "compare_shapes s t Primitive Structure = Decided (Inr False)"
| "compare_shapes s t Nullish Structure = Decided (Inr False)"
| "compare_shapes s t (Opaque n) Structure = Decided (Inl (Lookup (NotDeclared n)))"
| "compare_shapes s t Structure Structure =
     (case (element s, element t) of
        (Some a, Some b) \<Rightarrow> Again a b
      | _ \<Rightarrow> Decided (Inl Unsupported))"
| "compare_shapes s t src Structure = Decided (Inl Unsupported)"
| "compare_shapes s t Nullish (Members tm) = Decided (Inr False)"
| "compare_shapes s t (Members sm) (Members tm) = Both sm tm"
| "compare_shapes s t (Opaque n) (Members tm) =
     Decided (if tm = [] \<and> n \<in> set platform_classes then Inr True
              else Inl (Lookup (NotDeclared n)))"
| "compare_shapes s t src (Members tm) =
     Decided (if tm = [] then Inr True else Inl Unsupported)"
| "compare_shapes s t src tgt = Decided (Inl Unsupported)"

definition plan_of :: "nat \<Rightarrow> decl list \<Rightarrow> ty \<Rightarrow> ty \<Rightarrow> plan" where
  "plan_of k ds s t =
     (if s = t \<or> s = TAny \<or> t = TAny then Decided (Inr True)
      else case shape_of k ds s of
        Alias s' \<Rightarrow> Again s' t
      | Union_of ss \<Rightarrow> Every_source ss
      | Failed e \<Rightarrow> Decided (Inl (Lookup e))
      | Exotic \<Rightarrow> Decided (Inl Unsupported)
      | src \<Rightarrow>
          (case shape_of k ds t of
             Alias t' \<Rightarrow> Again s t'
           | Union_of ts \<Rightarrow> One_target ts
           | Failed e \<Rightarrow> Decided (Inl (Lookup e))
           | Exotic \<Rightarrow> Decided (Inl Unsupported)
           | tgt \<Rightarrow> compare_shapes s t src tgt))"

text \<open>
  The same for a member \<open>m\<close> of the target against the members \<open>sm\<close> of the source.
\<close>

definition member_plan :: "member list \<Rightarrow> member \<Rightarrow> plan" where
  "member_plan sm m =
     (case member_name m of
        None \<Rightarrow> Decided (if m \<in> set sm then Inr True else Inl Unsupported)
      | Some n \<Rightarrow>
          (case named_member sm n of
             None \<Rightarrow> Decided (Inr (optional m))
           | Some sm_n \<Rightarrow>
               if optional sm_n \<and> \<not> optional m then Decided (Inr False)
               else if sm_n = m then Decided (Inr True)
               else (case (as_property sm_n, as_property m) of
                       (Some st, Some t) \<Rightarrow>
                         Again st (if optional m then TUnion [t, TUndefined] else t)
                     | _ \<Rightarrow> Decided (Inl Unsupported))))"

definition members_plan :: "member list \<Rightarrow> member list \<Rightarrow> plan list" where
  "members_plan sm tm =
     (if missing sm tm \<noteq> [] then [Decided (Inr False)]
      else if weak tm \<and> list_ex (\<lambda>m. \<not> indexed m) sm \<and> shared sm tm = []
        then [Decided (Inr False)]
      else map (member_plan sm) tm)"

fun assignable :: "nat \<Rightarrow> decl list \<Rightarrow> ty \<Rightarrow> ty \<Rightarrow> verdict"
and carry_out :: "nat \<Rightarrow> decl list \<Rightarrow> ty \<Rightarrow> ty \<Rightarrow> plan \<Rightarrow> verdict" where
  "assignable 0 ds s t = Inl (Lookup OutOfFuel)"
| "assignable (Suc k) ds s t = carry_out k ds s t (plan_of k ds s t)"
| "carry_out k ds s t (Decided v) = v"
| "carry_out k ds s t (Every_source ss) = every (map (\<lambda>x. assignable k ds x t) ss)"
| "carry_out k ds s t (One_target ts) = any_of (map (\<lambda>y. assignable k ds s y) ts)"
| "carry_out k ds s t (Again s' t') = assignable k ds s' t'"
| "carry_out k ds s t (Both sm tm) =
     every (map (\<lambda>p. case p of Again s' t' \<Rightarrow> assignable k ds s' t' | Decided v \<Rightarrow> v
                             | _ \<Rightarrow> Inl Unsupported)
              (members_plan sm tm))"

subsection \<open>The types of arguments\<close>

text \<open>
  The type the checker gives an argument written as a literal: a string, a number, a boolean,
  \<^verbatim>\<open>null\<close>, a constructed object (the class), an object literal (one required property per
  initialiser). Other expressions need the types of the names they use and have none here.
  An object literal given where an object type with members is expected must not name a
  property that the expected type does not have (unless that type has an index signature);
  the check is made on the literal itself, not on literals nested in it.
\<close>

fun literal_type :: "expr \<Rightarrow> ty option"
and literal_props :: "prop_init list \<Rightarrow> member list option" where
  "literal_type (EStr s) = Some TString"
| "literal_type (ENum n) = Some TNumber"
| "literal_type (EBool b) = Some TBoolean"
| "literal_type ENull = Some TNull"
| "literal_type (ENew c args) = Some (tref c)"
| "literal_type (EObj ps) = map_option TObject (literal_props ps)"
| "literal_type _ = None"
| "literal_props [] = Some []"
| "literal_props (PropInit n e # ps) =
     (case (literal_type e, literal_props ps) of
        (Some t, Some ms) \<Rightarrow> Some (PropSig n False t # ms)
      | _ \<Rightarrow> None)"




text \<open>
  The options of a call \<^verbatim>\<open>$.cookie(name, value, options)\<close> of the cookie fixture, and whether
  a declared shape of the options, given by its members, takes them. The declaration of the
  options (\<^verbatim>\<open>JQueryCookieOptions\<close>) belongs to the plugin and is not among the source files, so
  the members are a parameter. The names the check may look up are those the fixture
  declares.
\<close>

abbreviation cookie_call :: "expr \<Rightarrow> stmt" where
  "cookie_call e \<equiv>
     SExpr (ECall cookie [EStr ''the_cookie'', EStr ''the_value'',
                          EObj [PropInit ''expires'' e]])"








subsection \<open>Calling a generic signature\<close>











subsection \<open>Unions of string literals\<close>

text \<open>
  Besides the three aliases, the declaration file writes unions of string literals in place,
  as the types of properties. These are the properties whose type names a string literal, by
  interface, in source order: of \<^verbatim>\<open>CSSProperties\<close> (lines 811 to 2473), of \<^verbatim>\<open>AriaAttributes\<close>
  (lines 2478 to 2663), of \<^verbatim>\<open>HTMLAttributes\<close> (line 2726), of \<^verbatim>\<open>LinkHTMLAttributes\<close>
  (line 3035) and of \<^verbatim>\<open>SVGAttributes\<close> (lines 3259 to 3451). Every other union of the file
  that names one of the three aliases has beside it \<^verbatim>\<open>number\<close>, \<^verbatim>\<open>string\<close>, \<^verbatim>\<open>any\<close> or the
  aliases \<^verbatim>\<open>CSSLength\<close> and \<^verbatim>\<open>CSSPercentage\<close>, which stand for \<^verbatim>\<open>number | string\<close> and
  \<^verbatim>\<open>string\<close>.
\<close>

definition CSSProperties_keywords :: "member list" where
  "CSSProperties_keywords =
    [PropSig ''alignContent'' True
       (TUnion
         [tref ''CSSWideKeyword'', TStrLit ''flex-start'', TStrLit ''flex-end'',
          TStrLit ''center'', TStrLit ''space-between'', TStrLit ''space-around'',
          TStrLit ''stretch'', TUndefined]),
     PropSig ''alignItems'' True
       (TUnion
         [tref ''CSSWideKeyword'', TStrLit ''flex-start'', TStrLit ''flex-end'',
          TStrLit ''center'', TStrLit ''baseline'', TStrLit ''stretch'', TUndefined]),
     PropSig ''alignSelf'' True
       (TUnion
         [tref ''CSSWideKeyword'', TStrLit ''auto'', TStrLit ''flex-start'',
          TStrLit ''flex-end'', TStrLit ''center'', TStrLit ''baseline'', TStrLit ''stretch'',
          TUndefined]),
     PropSig ''backgroundAttachment'' True
       (TUnion
         [tref ''CSSWideKeyword'', TStrLit ''scroll'', TStrLit ''fixed'', TStrLit ''local'',
          TUndefined]),
     PropSig ''columnCount'' True
       (TUnion
         [tref ''CSSWideKeyword'', TNumber, TStrLit ''auto'', TUndefined]),
     PropSig ''flexDirection'' True
       (TUnion
         [tref ''CSSWideKeyword'', TStrLit ''row'', TStrLit ''row-reverse'',
          TStrLit ''column'', TStrLit ''column-reverse'', TUndefined]),
     PropSig ''flexWrap'' True
       (TUnion
         [tref ''CSSWideKeyword'', TStrLit ''nowrap'', TStrLit ''wrap'',
          TStrLit ''wrap-reverse'', TUndefined]),
     PropSig ''fontSize'' True
       (TUnion
         [tref ''CSSWideKeyword'', TStrLit ''xx-small'', TStrLit ''x-small'',
          TStrLit ''small'', TStrLit ''medium'', TStrLit ''large'', TStrLit ''x-large'',
          TStrLit ''xx-large'', TStrLit ''larger'', TStrLit ''smaller'', tref ''CSSLength'',
          tref ''CSSPercentage'', TUndefined]),
     PropSig ''fontSizeAdjust'' True
       (TUnion
         [tref ''CSSWideKeyword'', TStrLit ''none'', TNumber, TUndefined]),
     PropSig ''fontStretch'' True
       (TUnion
         [tref ''CSSWideKeyword'', TStrLit ''normal'', TStrLit ''ultra-condensed'',
          TStrLit ''extra-condensed'', TStrLit ''condensed'', TStrLit ''semi-condensed'',
          TStrLit ''semi-expanded'', TStrLit ''expanded'', TStrLit ''extra-expanded'',
          TStrLit ''ultra-expanded'', TUndefined]),
     PropSig ''fontStyle'' True
       (TUnion
         [tref ''CSSWideKeyword'', TStrLit ''normal'', TStrLit ''italic'', TStrLit ''oblique'',
          TUndefined]),
     PropSig ''fontWeight'' True
       (TUnion
         [tref ''CSSWideKeyword'', TStrLit ''normal'', TStrLit ''bold'', TStrLit ''bolder'',
          TStrLit ''lighter'', TNumLit 100, TNumLit 200, TNumLit 300, TNumLit 400, TNumLit 500,
          TNumLit 600, TNumLit 700, TNumLit 800, TNumLit 900, TUndefined]),
     PropSig ''justifyContent'' True
       (TUnion
         [tref ''CSSWideKeyword'', TStrLit ''flex-start'', TStrLit ''flex-end'',
          TStrLit ''center'', TStrLit ''space-between'', TStrLit ''space-around'',
          TStrLit ''space-evenly'', TUndefined]),
     PropSig ''lineHeight'' True
       (TUnion
         [tref ''CSSWideKeyword'', TStrLit ''normal'', TNumber, tref ''CSSLength'',
          tref ''CSSPercentage'', TUndefined]),
     PropSig ''overflow'' True
       (TUnion
         [tref ''CSSWideKeyword'', TStrLit ''auto'', TStrLit ''hidden'', TStrLit ''scroll'',
          TStrLit ''visible'', TUndefined]),
     PropSig ''overflowX'' True
       (TUnion
         [tref ''CSSWideKeyword'', TStrLit ''auto'', TStrLit ''hidden'', TStrLit ''scroll'',
          TStrLit ''visible'', TUndefined]),
     PropSig ''overflowY'' True
       (TUnion
         [tref ''CSSWideKeyword'', TStrLit ''auto'', TStrLit ''hidden'', TStrLit ''scroll'',
          TStrLit ''visible'', TUndefined]),
     PropSig ''position'' True
       (TUnion
         [tref ''CSSWideKeyword'', TStrLit ''static'', TStrLit ''relative'',
          TStrLit ''absolute'', TStrLit ''fixed'', TStrLit ''sticky'', TUndefined]),
     PropSig ''zIndex'' True
       (TUnion
         [tref ''CSSWideKeyword'', TStrLit ''auto'', TNumber, TUndefined]),
     PropSig ''zoom'' True
       (TUnion
         [tref ''CSSWideKeyword'', TStrLit ''auto'', TNumber, tref ''CSSPercentage'',
          TUndefined])]"

definition AriaAttributes_keywords :: "member list" where
  "AriaAttributes_keywords =
    [PropSig ''aria-atomic'' True
       (TUnion
         [TBoolean, TStrLit ''false'', TStrLit ''true'', TUndefined]),
     PropSig ''aria-autocomplete'' True
       (TUnion
         [TStrLit ''none'', TStrLit ''inline'', TStrLit ''list'', TStrLit ''both'', TUndefined]),
     PropSig ''aria-busy'' True
       (TUnion
         [TBoolean, TStrLit ''false'', TStrLit ''true'', TUndefined]),
     PropSig ''aria-checked'' True
       (TUnion
         [TBoolean, TStrLit ''false'', TStrLit ''mixed'', TStrLit ''true'', TUndefined]),
     PropSig ''aria-current'' True
       (TUnion
         [TBoolean, TStrLit ''false'', TStrLit ''true'', TStrLit ''page'', TStrLit ''step'',
          TStrLit ''location'', TStrLit ''date'', TStrLit ''time'', TUndefined]),
     PropSig ''aria-disabled'' True
       (TUnion
         [TBoolean, TStrLit ''false'', TStrLit ''true'', TUndefined]),
     PropSig ''aria-dropeffect'' True
       (TUnion
         [TStrLit ''none'', TStrLit ''copy'', TStrLit ''execute'', TStrLit ''link'',
          TStrLit ''move'', TStrLit ''popup'', TUndefined]),
     PropSig ''aria-expanded'' True
       (TUnion
         [TBoolean, TStrLit ''false'', TStrLit ''true'', TUndefined]),
     PropSig ''aria-grabbed'' True
       (TUnion
         [TBoolean, TStrLit ''false'', TStrLit ''true'', TUndefined]),
     PropSig ''aria-haspopup'' True
       (TUnion
         [TBoolean, TStrLit ''false'', TStrLit ''true'', TStrLit ''menu'', TStrLit ''listbox'',
          TStrLit ''tree'', TStrLit ''grid'', TStrLit ''dialog'', TUndefined]),
     PropSig ''aria-hidden'' True
       (TUnion
         [TBoolean, TStrLit ''false'', TStrLit ''true'', TUndefined]),
     PropSig ''aria-invalid'' True
       (TUnion
         [TBoolean, TStrLit ''false'', TStrLit ''true'', TStrLit ''grammar'',
          TStrLit ''spelling'', TUndefined]),
     PropSig ''aria-live'' True
       (TUnion
         [TStrLit ''off'', TStrLit ''assertive'', TStrLit ''polite'', TUndefined]),
     PropSig ''aria-modal'' True
       (TUnion
         [TBoolean, TStrLit ''false'', TStrLit ''true'', TUndefined]),
     PropSig ''aria-multiline'' True
       (TUnion
         [TBoolean, TStrLit ''false'', TStrLit ''true'', TUndefined]),
     PropSig ''aria-multiselectable'' True
       (TUnion
         [TBoolean, TStrLit ''false'', TStrLit ''true'', TUndefined]),
     PropSig ''aria-orientation'' True
       (TUnion
         [TStrLit ''horizontal'', TStrLit ''vertical'', TUndefined]),
     PropSig ''aria-pressed'' True
       (TUnion
         [TBoolean, TStrLit ''false'', TStrLit ''mixed'', TStrLit ''true'', TUndefined]),
     PropSig ''aria-readonly'' True
       (TUnion
         [TBoolean, TStrLit ''false'', TStrLit ''true'', TUndefined]),
     PropSig ''aria-relevant'' True
       (TUnion
         [TStrLit ''additions'', TStrLit ''additions text'', TStrLit ''all'',
          TStrLit ''removals'', TStrLit ''text'', TUndefined]),
     PropSig ''aria-required'' True
       (TUnion
         [TBoolean, TStrLit ''false'', TStrLit ''true'', TUndefined]),
     PropSig ''aria-selected'' True
       (TUnion
         [TBoolean, TStrLit ''false'', TStrLit ''true'', TUndefined]),
     PropSig ''aria-sort'' True
       (TUnion
         [TStrLit ''none'', TStrLit ''ascending'', TStrLit ''descending'', TStrLit ''other'',
          TUndefined])]"

definition HTMLAttributes_keywords :: "member list" where
  "HTMLAttributes_keywords =
    [PropSig ''inputMode'' True
       (TUnion
         [TStrLit ''none'', TStrLit ''text'', TStrLit ''tel'', TStrLit ''url'',
          TStrLit ''email'', TStrLit ''numeric'', TStrLit ''decimal'', TStrLit ''search'',
          TUndefined])]"

definition LinkHTMLAttributes_keywords :: "member list" where
  "LinkHTMLAttributes_keywords =
    [PropSig ''fetchPriority'' True
       (TUnion
         [TStrLit ''high'', TStrLit ''low'', TStrLit ''auto''])]"

definition SVGAttributes_keywords :: "member list" where
  "SVGAttributes_keywords =
    [PropSig ''accumulate'' True
       (TUnion
         [TStrLit ''none'', TStrLit ''sum'', TUndefined]),
     PropSig ''additive'' True
       (TUnion
         [TStrLit ''replace'', TStrLit ''sum'', TUndefined]),
     PropSig ''alignmentBaseline'' True
       (TUnion
         [TStrLit ''auto'', TStrLit ''baseline'', TStrLit ''before-edge'',
          TStrLit ''text-before-edge'', TStrLit ''middle'', TStrLit ''central'',
          TStrLit ''after-edge'', TStrLit ''text-after-edge'', TStrLit ''ideographic'',
          TStrLit ''alphabetic'', TStrLit ''hanging'', TStrLit ''mathematical'',
          TStrLit ''inherit'', TUndefined]),
     PropSig ''allowReorder'' True
       (TUnion
         [TStrLit ''no'', TStrLit ''yes'', TUndefined]),
     PropSig ''arabicForm'' True
       (TUnion
         [TStrLit ''initial'', TStrLit ''medial'', TStrLit ''terminal'', TStrLit ''isolated'',
          TUndefined]),
     PropSig ''colorInterpolationFilters'' True
       (TUnion
         [TStrLit ''auto'', TStrLit ''sRGB'', TStrLit ''linearRGB'', TStrLit ''inherit'',
          TUndefined]),
     PropSig ''fillRule'' True
       (TUnion
         [TStrLit ''nonzero'', TStrLit ''evenodd'', TStrLit ''inherit'', TUndefined]),
     PropSig ''strokeLinecap'' True
       (TUnion
         [TStrLit ''butt'', TStrLit ''round'', TStrLit ''square'', TStrLit ''inherit'',
          TUndefined]),
     PropSig ''strokeLinejoin'' True
       (TUnion
         [TStrLit ''miter'', TStrLit ''round'', TStrLit ''bevel'', TStrLit ''inherit'',
          TUndefined])]"

definition keyword_properties :: "(string \<times> member) list" where
  "keyword_properties =
     map (Pair ''CSSProperties'') CSSProperties_keywords
     @ map (Pair ''AriaAttributes'') AriaAttributes_keywords
     @ map (Pair ''HTMLAttributes'') HTMLAttributes_keywords
     @ map (Pair ''LinkHTMLAttributes'') LinkHTMLAttributes_keywords
     @ map (Pair ''SVGAttributes'') SVGAttributes_keywords"

text \<open>
  The values that a type lists when it is a union of string literals: a string literal lists
  its string, \<^verbatim>\<open>undefined\<close> itself, a union what its members list, an alias what its body
  lists (the first argument bounds the chain of aliases); any other type is no union of
  string literals and the result is \<open>None\<close>.
\<close>

fun literals_of :: "nat \<Rightarrow> decl list \<Rightarrow> ty \<Rightarrow> jsval list option" where
  "literals_of k ds (TStrLit l) = Some [VStr l]"
| "literals_of k ds TUndefined = Some [VUndefined]"
| "literals_of k ds (TUnion ts) = map_option concat (those (map (literals_of k ds) ts))"
| "literals_of (Suc k) ds (TRef n args) =
     (case alias_of ds n of
        Some (tps, body) \<Rightarrow> literals_of k ds (subst (bind tps args) body)
      | None \<Rightarrow> None)"
| "literals_of k ds t = None"

fun literal_union :: "decl list \<Rightarrow> ty \<Rightarrow> bool" where
  "literal_union ds (TUnion ts) = (literals_of 8 ds (TUnion ts) \<noteq> None)"
| "literal_union ds t = False"

fun alias_union :: "decl list \<Rightarrow> decl \<Rightarrow> string list" where
  "alias_union ds (DAlias n tps t) = (if literal_union ds t then [n] else [])"
| "alias_union ds d = []"

fun property_union :: "decl list \<Rightarrow> string \<times> member \<Rightarrow> (string \<times> string) list" where
  "property_union ds (i, PropSig n opt t) = (if literal_union ds t then [(i, n)] else [])"
| "property_union ds im = []"

definition literal_unions :: "decl list \<Rightarrow> string list" where
  "literal_unions ds = concat (map (alias_union ds) ds)"

definition literal_union_properties :: "(string \<times> string) list" where
  "literal_union_properties = concat (map (property_union react_decls) keyword_properties)"

subsection \<open>Elements and factories\<close>







section \<open>Properties\<close>

subsection \<open>Verdicts and members\<close>






subsection \<open>C1: which functions carry a body\<close>

lemma react_functions_signature_only:
  "\<forall>fn\<in>set (file_functions react_index_d_ts). signature_only fn"
  by code_simp

lemma react_functions_count: "length (file_functions react_index_d_ts) = 28"
  by code_simp

lemma fixture_functions_have_bodies:
  "\<forall>fn\<in>set (file_functions cookie_tests @ file_functions yazl_tests). \<not> signature_only fn"
  by code_simp

lemma fixture_functions_count:
  "length (file_functions cookie_tests @ file_functions yazl_tests) = 5"
  by code_simp

text \<open>
  C1, amended. Every declaration of the declaration file that has a place for a body is a
  signature without one: its 24 top-level function declarations and the constructor and the
  three methods of its class \<^verbatim>\<open>Component\<close> (the members of its interfaces are signatures by
  the grammar). The functions of the fixtures all carry a body: the constructor of
  \<^verbatim>\<open>TestObject\<close> and the four arrow functions of the zip fixture.
\<close>

theorem declaration_file_signatures_only:
  "(\<forall>fn\<in>set (file_functions react_index_d_ts). signature_only fn)
   \<and> length (file_functions react_index_d_ts) = 28
   \<and> (\<forall>fn\<in>set (file_functions cookie_tests @ file_functions yazl_tests). \<not> signature_only fn)
   \<and> length (file_functions cookie_tests @ file_functions yazl_tests) = 5"
  by (intro conjI react_functions_signature_only react_functions_count
      fixture_functions_have_bodies fixture_functions_count)

theorem declaration_file_signatures_only_witness:
  "(''cloneElement'', Plain, None) \<in> set (file_functions react_index_d_ts)
   \<and> signature_only (''cloneElement'', Plain, None)
   \<and> TestObject_constructor \<in> set (file_functions cookie_tests @ file_functions yazl_tests)
   \<and> \<not> signature_only TestObject_constructor"
proof -
  have a: "(''cloneElement'', Plain, None) \<in> set (file_functions react_index_d_ts)"
    by code_simp
  have b: "TestObject_constructor \<in> set (file_functions cookie_tests @ file_functions yazl_tests)"
    by code_simp
  from declaration_file_signatures_only a b show ?thesis
    by blast
qed

text \<open>
  C1 as first stated, for every function of every source file, fails at the cookie fixture:
  the constructor of \<^verbatim>\<open>TestObject\<close> has a body of two assignments.
\<close>

theorem constructor_carries_body:
  "cookie_tests \<in> set repository_files
   \<and> TestObject_constructor \<in> set (file_functions cookie_tests)
   \<and> \<not> signature_only TestObject_constructor"
  by code_simp

subsection \<open>C2: which files depend on other files\<close>

text \<open>
  C2, amended. The declaration file imports nothing. The fixtures depend on other files: the
  zip fixture imports the modules \<^verbatim>\<open>yazl\<close> and \<^verbatim>\<open>fs\<close>, and the cookie fixture, which has no
  import, uses \<^verbatim>\<open>JQueryCookieOptions\<close> and \<^verbatim>\<open>$\<close> without declaring them (with the platform's
  \<^verbatim>\<open>Date\<close> and \<^verbatim>\<open>console\<close>); besides its imports the zip fixture uses only names of the
  platform.
\<close>

theorem fixtures_depend_on_declarations:
  "sf_imports react_index_d_ts = []
   \<and> sf_imports cookie_tests = []
   \<and> map import_module (sf_imports yazl_tests) = [''yazl'', ''fs'']
   \<and> external_names cookie_tests = [''JQueryCookieOptions'', ''Date'', ''console'', ''$'']
   \<and> external_names yazl_tests = [''console'', ''process'', ''Buffer'', ''Date'', ''parseInt'']"
  by code_simp

text \<open>
  C2 as first stated, that no file imports another or refers to a type declared in another,
  fails at the zip fixture, which imports \<^verbatim>\<open>ZipFile\<close> from \<^verbatim>\<open>yazl\<close>, and at the cookie
  fixture, whose class implements an interface it does not declare.
\<close>

theorem zip_fixture_imports:
  "yazl_tests \<in> set repository_files
   \<and> ImportNamed [''ZipFile''] ''yazl'' \<in> set (sf_imports yazl_tests)
   \<and> cookie_tests \<in> set repository_files
   \<and> ''JQueryCookieOptions'' \<in> set (external_names cookie_tests)"
  by code_simp

subsection \<open>C3: errors are diagnostics of the checker\<close>














subsection \<open>C4: what the tests assert\<close>

text \<open>
  C4. The tests are assertions about the type checker. The statements that carry a directive
  are, in the zip fixture, \<^verbatim>\<open>zipfile.outputStream\<close> with expected type \<^verbatim>\<open>ReadableStream\<close> and
  \<^verbatim>\<open>zipfile.on("error", handler)\<close> with expected type \<^verbatim>\<open>ZipFile\<close>, and in the cookie fixture
  the call expected to be rejected; every other statement only has to be accepted. No test
  checks a computed result: the code of the source files has no comparison, no branch or
  loop and no \<^verbatim>\<open>throw\<close> or \<^verbatim>\<open>try\<close>, and the functions it calls are those of the library
  under test, of the console and of the platform.
\<close>

theorem fixtures_assert_types:
  "filter (\<lambda>ds. fst ds \<noteq> None) (sf_stmts yazl_tests)
     = [(Some (ExpectType ''ReadableStream''), SExpr (EMember zipfile ''outputStream'')),
        (Some (ExpectType ''ZipFile''),
           SExpr (ECall (EMember zipfile ''on'') [EStr ''error'', error_handler]))]
   \<and> filter (\<lambda>ds. fst ds \<noteq> None) (sf_stmts cookie_tests)
     = [(Some TsExpectError, cookie_call (EStr ''tomorrow''))]
   \<and> sf_stmts react_index_d_ts = []
   \<and> filter is_comparison (concat (map file_exprs repository_files)) = []
   \<and> filter is_branch (concat (map file_stmts repository_files)) = []
   \<and> filter is_error_handling (concat (map file_stmts repository_files)) = []
   \<and> file_calls cookie_tests = [''$.cookie'', ''console.log'']
   \<and> file_calls yazl_tests
     = [''zipfile.addFile'', ''zipfile.on'', ''console.error'',
        ''zipfile.outputStream.pipe().on'', ''zipfile.outputStream.pipe'',
        ''fs.createWriteStream'', ''console.log'', ''zipfile.addReadStream'',
        ''zipfile.addReadStreamLazy'', ''cb'', ''zipfile.addBuffer'', ''parseInt'',
        ''zipfile.end'']"
  by code_simp

subsection \<open>C5: the compiler configuration\<close>

text \<open>
  C5. The compiler configuration sets the target language level (\<^verbatim>\<open>es2016\<close>) and the library
  surfaces (\<^verbatim>\<open>es6\<close>, \<^verbatim>\<open>dom\<close>), enables the strictness flags, among them null checking
  (\<^verbatim>\<open>strictNullChecks\<close>) and consistent casing of file names
  (\<^verbatim>\<open>forceConsistentCasingInFileNames\<close>), and lists the declaration file and the test file
  given to the checker.
\<close>

theorem tsconfig_governs_checking:
  "compiler_option ''target'' = Some (JStr ''es2016'')
   \<and> compiler_option ''lib'' = Some (JArr [JStr ''es6'', JStr ''dom''])
   \<and> compiler_option ''strictNullChecks'' = Some (JBool True)
   \<and> compiler_option ''forceConsistentCasingInFileNames'' = Some (JBool True)
   \<and> compiler_option ''noImplicitAny'' = Some (JBool True)
   \<and> compiler_option ''strictFunctionTypes'' = Some (JBool True)
   \<and> compiler_option ''noImplicitThis'' = Some (JBool True)
   \<and> json_get ''files'' tsconfig = Some (JArr [JStr ''index.d.ts'', JStr ''test/xdialog-tests.ts''])"
  by (simp add: compiler_option_def tsconfig_def)

subsection \<open>C6: cycles, inheritance, global state, coroutines\<close>

lemma chain_reaches:
  "chain ds (a # xs @ [b]) \<Longrightarrow> (a, b) \<in> {(x, y). refers ds x y}\<^sup>+"
proof (induction xs arbitrary: a)
  case Nil
  then show ?case by auto
next
  case (Cons x xs)
  then have "refers ds a x" and "chain ds (x # xs @ [b])"
    by simp_all
  with Cons.IH show ?case
    by (auto intro: trancl_into_trancl2)
qed

lemma cycle_not_acyclic:
  assumes "is_cycle ds p"
  shows "\<not> acyclic {(x, y). refers ds x y}"
proof -
  from assms obtain a xs where p: "p = a # xs" and "chain ds (a # xs @ [a])"
    by (cases p) (auto simp add: is_cycle_def)
  then have "(a, a) \<in> {(x, y). refers ds x y}\<^sup>+"
    by (simp add: chain_reaches)
  then show ?thesis
    by (auto simp add: acyclic_def)
qed

text \<open>
  C6, amended. No function of the source files is a coroutine (none is \<^verbatim>\<open>async\<close> or a
  generator). The type graph of the declaration file is cyclic: \<^verbatim>\<open>ReactNode\<close> refers to
  \<^verbatim>\<open>ReactFragment\<close>, that to \<^verbatim>\<open>ReactNodeArray\<close>, and that to \<^verbatim>\<open>ReactNode\<close>; \<^verbatim>\<open>Mixin\<close> refers
  to itself; so the relation of reference is not acyclic. The class \<^verbatim>\<open>PureComponent\<close>
  inherits from \<^verbatim>\<open>Component\<close> and declares no member of its own. The cookie fixture assigns
  to state that it does not declare, the plugin's \<^verbatim>\<open>$.cookie.json\<close> and
  \<^verbatim>\<open>$.cookie.defaults\<close>.
\<close>

theorem cycles_inheritance_globals:
  "is_cycle react_decls [''ReactNode'', ''ReactFragment'', ''ReactNodeArray'']
   \<and> is_cycle react_decls [''Mixin'']
   \<and> \<not> acyclic {(x, y). refers react_decls x y}
   \<and> class_of react_decls ''PureComponent''
       = Some ([tp_dflt ''P'' (TObject []), tp_dflt ''S'' (TObject [])],
               [TRef ''Component'' [tref ''P'', tref ''S'']], [])
   \<and> global_assignments cookie_tests = [''$.cookie.json'', ''$.cookie.defaults'']
   \<and> filter coroutine (concat (map file_functions repository_files)) = []"
proof -
  have node: "is_cycle react_decls [''ReactNode'', ''ReactFragment'', ''ReactNodeArray'']"
    by code_simp
  have mixin: "is_cycle react_decls [''Mixin'']"
    by code_simp
  have pure: "class_of react_decls ''PureComponent''
       = Some ([tp_dflt ''P'' (TObject []), tp_dflt ''S'' (TObject [])],
               [TRef ''Component'' [tref ''P'', tref ''S'']], [])"
    by code_simp
  have globals: "global_assignments cookie_tests = [''$.cookie.json'', ''$.cookie.defaults'']"
    by code_simp
  have plain: "filter coroutine (concat (map file_functions repository_files)) = []"
    by code_simp
  from node mixin cycle_not_acyclic [OF node] pure globals plain show ?thesis
    by (intro conjI)
qed

text \<open>
  C6 as first stated, that no source file contains a cyclic type graph, fails at the node types
  of the declaration file.
\<close>

theorem react_node_cycle:
  "is_cycle react_decls [''ReactNode'', ''ReactFragment'', ''ReactNodeArray'']"
  by code_simp

subsection \<open>C7: unions of string literals\<close>

lemma those_map:
  "those (map f xs) = Some ys \<Longrightarrow> list_all2 (\<lambda>x y. f x = Some y) xs ys"
proof (induction xs arbitrary: ys)
  case Nil
  then show ?case by simp
next
  case (Cons x xs)
  then show ?case
    by (auto split: option.splits)
qed

lemma all2_left: "list_all2 P xs ys \<Longrightarrow> x \<in> set xs \<Longrightarrow> \<exists>y\<in>set ys. P x y"
  by (induction rule: list_all2_induct) auto

lemma all2_right: "list_all2 P xs ys \<Longrightarrow> y \<in> set ys \<Longrightarrow> \<exists>x\<in>set xs. P x y"
  by (induction rule: list_all2_induct) auto

text \<open>
  The values of a union of string literals are the values it lists, and each of these is a
  string or \<^verbatim>\<open>undefined\<close>.
\<close>

lemma listed_values:
  "literals_of k ds t = Some vs \<Longrightarrow> has_type k ds v t \<longleftrightarrow> v \<in> set vs"
proof (induction k ds t arbitrary: vs rule: literals_of.induct)
  case (3 k ds ts)
  from "3.prems" obtain vss where
    vss: "those (map (literals_of k ds) ts) = Some vss" and vs: "vs = concat vss"
    by auto
  from vss have all2: "list_all2 (\<lambda>t ws. literals_of k ds t = Some ws) ts vss"
    by (rule those_map)
  have "(\<exists>t\<in>set ts. has_type k ds v t) \<longleftrightarrow> (\<exists>ws\<in>set vss. v \<in> set ws)"
  proof
    assume "\<exists>t\<in>set ts. has_type k ds v t"
    then obtain t where t: "t \<in> set ts" and h: "has_type k ds v t"
      by blast
    from all2_left [OF all2 t] obtain ws where
      "ws \<in> set vss" and "literals_of k ds t = Some ws"
      by blast
    with "3.IH" t h show "\<exists>ws\<in>set vss. v \<in> set ws"
      by blast
  next
    assume "\<exists>ws\<in>set vss. v \<in> set ws"
    then obtain ws where ws: "ws \<in> set vss" and v: "v \<in> set ws"
      by blast
    from all2_right [OF all2 ws] obtain t where
      "t \<in> set ts" and "literals_of k ds t = Some ws"
      by blast
    with "3.IH" v show "\<exists>t\<in>set ts. has_type k ds v t"
      by blast
  qed
  with vs show ?case
    by simp
qed (auto split: option.splits)

lemma listed_kinds:
  "literals_of k ds t = Some vs \<Longrightarrow> list_all (\<lambda>v. is_str v \<or> v = VUndefined) vs"
proof (induction k ds t arbitrary: vs rule: literals_of.induct)
  case (3 k ds ts)
  from "3.prems" obtain vss where
    vss: "those (map (literals_of k ds) ts) = Some vss" and vs: "vs = concat vss"
    by auto
  from vss have all2: "list_all2 (\<lambda>t ws. literals_of k ds t = Some ws) ts vss"
    by (rule those_map)
  have "\<forall>ws\<in>set vss. list_all (\<lambda>v. is_str v \<or> v = VUndefined) ws"
  proof
    fix ws
    assume "ws \<in> set vss"
    with all2_right [OF all2] obtain t where "t \<in> set ts" and "literals_of k ds t = Some ws"
      by blast
    with "3.IH" show "list_all (\<lambda>v. is_str v \<or> v = VUndefined) ws"
      by blast
  qed
  with vs show ?case
    by (auto simp add: list_all_iff)
qed (auto split: option.splits)

lemma strings_only:
  assumes "literals_of k ds t = Some vs" and "VUndefined \<notin> set vs" and "has_type k ds v t"
  shows "is_str v"
proof -
  from assms(1,3) have "v \<in> set vs"
    by (simp add: listed_values)
  with listed_kinds [OF assms(1)] assms(2) show ?thesis
    by (auto simp add: list_all_iff)
qed

lemma alias_unions_listed:
  "literal_unions react_decls = [''CrossOrigin'', ''ModifierKey'', ''CSSWideKeyword'']"
  by code_simp

lemma property_unions_listed:
  "literal_union_properties =
     [(''CSSProperties'', ''alignContent''), (''CSSProperties'', ''alignItems''),
      (''CSSProperties'', ''alignSelf''), (''CSSProperties'', ''backgroundAttachment''),
      (''CSSProperties'', ''flexDirection''), (''CSSProperties'', ''flexWrap''),
      (''CSSProperties'', ''fontStretch''), (''CSSProperties'', ''fontStyle''),
      (''CSSProperties'', ''justifyContent''), (''CSSProperties'', ''overflow''),
      (''CSSProperties'', ''overflowX''), (''CSSProperties'', ''overflowY''),
      (''CSSProperties'', ''position''),
      (''AriaAttributes'', ''aria-autocomplete''), (''AriaAttributes'', ''aria-dropeffect''),
      (''AriaAttributes'', ''aria-live''), (''AriaAttributes'', ''aria-orientation''),
      (''AriaAttributes'', ''aria-relevant''), (''AriaAttributes'', ''aria-sort''),
      (''HTMLAttributes'', ''inputMode''), (''LinkHTMLAttributes'', ''fetchPriority''),
      (''SVGAttributes'', ''accumulate''), (''SVGAttributes'', ''additive''),
      (''SVGAttributes'', ''alignmentBaseline''), (''SVGAttributes'', ''allowReorder''),
      (''SVGAttributes'', ''arabicForm''), (''SVGAttributes'', ''colorInterpolationFilters''),
      (''SVGAttributes'', ''fillRule''), (''SVGAttributes'', ''strokeLinecap''),
      (''SVGAttributes'', ''strokeLinejoin'')]"
  by code_simp

lemma alias_values:
  "literals_of (Suc k) react_decls (tref ''CrossOrigin'')
     = Some [VStr ''anonymous'', VStr ''use-credentials'', VStr '''', VUndefined]"
  "literals_of (Suc k) react_decls (tref ''ModifierKey'')
     = Some (map VStr [''Alt'', ''AltGraph'', ''CapsLock'', ''Control'', ''Fn'', ''FnLock'',
                       ''Hyper'', ''Meta'', ''NumLock'', ''ScrollLock'', ''Shift'', ''Super'',
                       ''Symbol'', ''SymbolLock''])"
  "literals_of (Suc k) react_decls (tref ''CSSWideKeyword'')
     = Some [VStr ''initial'', VStr ''inherit'', VStr ''unset'']"
proof -
  have "alias_of react_decls ''CrossOrigin'' =
     Some ([], TUnion [TStrLit ''anonymous'', TStrLit ''use-credentials'', TStrLit '''',
                       TUndefined])"
    by code_simp
  then show "literals_of (Suc k) react_decls (tref ''CrossOrigin'')
     = Some [VStr ''anonymous'', VStr ''use-credentials'', VStr '''', VUndefined]"
    by simp
  have "alias_of react_decls ''ModifierKey'' =
     Some ([], TUnion [TStrLit ''Alt'', TStrLit ''AltGraph'', TStrLit ''CapsLock'',
                TStrLit ''Control'', TStrLit ''Fn'', TStrLit ''FnLock'', TStrLit ''Hyper'',
                TStrLit ''Meta'', TStrLit ''NumLock'', TStrLit ''ScrollLock'', TStrLit ''Shift'',
                TStrLit ''Super'', TStrLit ''Symbol'', TStrLit ''SymbolLock''])"
    by code_simp
  then show "literals_of (Suc k) react_decls (tref ''ModifierKey'')
     = Some (map VStr [''Alt'', ''AltGraph'', ''CapsLock'', ''Control'', ''Fn'', ''FnLock'',
                       ''Hyper'', ''Meta'', ''NumLock'', ''ScrollLock'', ''Shift'', ''Super'',
                       ''Symbol'', ''SymbolLock''])"
    by simp
  have "alias_of react_decls ''CSSWideKeyword'' =
     Some ([], TUnion [TStrLit ''initial'', TStrLit ''inherit'', TStrLit ''unset''])"
    by code_simp
  then show "literals_of (Suc k) react_decls (tref ''CSSWideKeyword'')
     = Some [VStr ''initial'', VStr ''inherit'', VStr ''unset'']"
    by simp
qed

text \<open>
  C7, amended. The declaration file has unions of string literals: the aliases
  \<^verbatim>\<open>CrossOrigin\<close>, \<^verbatim>\<open>ModifierKey\<close> and \<^verbatim>\<open>CSSWideKeyword\<close>, and thirty unions written in place
  as the types of properties. Every member of such a union is a string literal or
  \<^verbatim>\<open>undefined\<close> (or an alias of such a union), so, for every type that is a union of string
  literals, under whatever declarations: its values are exactly the values it lists, each a
  string or \<^verbatim>\<open>undefined\<close>; and when it does not list \<^verbatim>\<open>undefined\<close>, as \<^verbatim>\<open>ModifierKey\<close> and
  \<^verbatim>\<open>CSSWideKeyword\<close> do not, a value of the type is always one of the enumerated strings.
  \<^verbatim>\<open>CrossOrigin\<close> lists \<^verbatim>\<open>undefined\<close>.
\<close>

theorem string_literal_unions:
  "(literals_of k ds t = Some vs \<longrightarrow>
        (\<forall>v. has_type k ds v t \<longleftrightarrow> v \<in> set vs)
      \<and> list_all (\<lambda>v. is_str v \<or> v = VUndefined) vs
      \<and> (VUndefined \<notin> set vs \<longrightarrow> (\<forall>v. has_type k ds v t \<longrightarrow> is_str v)))
   \<and> literal_unions react_decls = [''CrossOrigin'', ''ModifierKey'', ''CSSWideKeyword'']
   \<and> literal_union_properties =
     [(''CSSProperties'', ''alignContent''), (''CSSProperties'', ''alignItems''),
      (''CSSProperties'', ''alignSelf''), (''CSSProperties'', ''backgroundAttachment''),
      (''CSSProperties'', ''flexDirection''), (''CSSProperties'', ''flexWrap''),
      (''CSSProperties'', ''fontStretch''), (''CSSProperties'', ''fontStyle''),
      (''CSSProperties'', ''justifyContent''), (''CSSProperties'', ''overflow''),
      (''CSSProperties'', ''overflowX''), (''CSSProperties'', ''overflowY''),
      (''CSSProperties'', ''position''),
      (''AriaAttributes'', ''aria-autocomplete''), (''AriaAttributes'', ''aria-dropeffect''),
      (''AriaAttributes'', ''aria-live''), (''AriaAttributes'', ''aria-orientation''),
      (''AriaAttributes'', ''aria-relevant''), (''AriaAttributes'', ''aria-sort''),
      (''HTMLAttributes'', ''inputMode''), (''LinkHTMLAttributes'', ''fetchPriority''),
      (''SVGAttributes'', ''accumulate''), (''SVGAttributes'', ''additive''),
      (''SVGAttributes'', ''alignmentBaseline''), (''SVGAttributes'', ''allowReorder''),
      (''SVGAttributes'', ''arabicForm''), (''SVGAttributes'', ''colorInterpolationFilters''),
      (''SVGAttributes'', ''fillRule''), (''SVGAttributes'', ''strokeLinecap''),
      (''SVGAttributes'', ''strokeLinejoin'')]
   \<and> literals_of (Suc d) react_decls (tref ''CrossOrigin'')
       = Some [VStr ''anonymous'', VStr ''use-credentials'', VStr '''', VUndefined]
   \<and> literals_of (Suc d) react_decls (tref ''ModifierKey'')
       = Some (map VStr [''Alt'', ''AltGraph'', ''CapsLock'', ''Control'', ''Fn'', ''FnLock'',
                         ''Hyper'', ''Meta'', ''NumLock'', ''ScrollLock'', ''Shift'', ''Super'',
                         ''Symbol'', ''SymbolLock''])
   \<and> literals_of (Suc d) react_decls (tref ''CSSWideKeyword'')
       = Some [VStr ''initial'', VStr ''inherit'', VStr ''unset'']"
proof -
  have general: "literals_of k ds t = Some vs \<longrightarrow>
        (\<forall>v. has_type k ds v t \<longleftrightarrow> v \<in> set vs)
      \<and> list_all (\<lambda>v. is_str v \<or> v = VUndefined) vs
      \<and> (VUndefined \<notin> set vs \<longrightarrow> (\<forall>v. has_type k ds v t \<longrightarrow> is_str v))"
  proof
    assume listed: "literals_of k ds t = Some vs"
    show "(\<forall>v. has_type k ds v t \<longleftrightarrow> v \<in> set vs)
      \<and> list_all (\<lambda>v. is_str v \<or> v = VUndefined) vs
      \<and> (VUndefined \<notin> set vs \<longrightarrow> (\<forall>v. has_type k ds v t \<longrightarrow> is_str v))"
    proof (intro conjI allI impI)
      fix v
      show "has_type k ds v t \<longleftrightarrow> v \<in> set vs"
        using listed by (rule listed_values)
    next
      show "list_all (\<lambda>v. is_str v \<or> v = VUndefined) vs"
        using listed by (rule listed_kinds)
    next
      fix v
      assume "VUndefined \<notin> set vs" and "has_type k ds v t"
      with listed show "is_str v"
        by (rule strings_only)
    qed
  qed
  from general alias_unions_listed property_unions_listed
    alias_values(1) [of d] alias_values(2) [of d] alias_values(3) [of d]
  show ?thesis
    by (intro conjI)
qed

text \<open>
  At the three aliases and at one of the unions written in place (\<^verbatim>\<open>aria-live\<close>): the values
  of the type are the listed ones, and strings alone where \<^verbatim>\<open>undefined\<close> is not listed.
\<close>

theorem string_literal_unions_witness:
  "(\<forall>v. has_type 1 react_decls v (tref ''CrossOrigin'')
          \<longleftrightarrow> v \<in> {VStr ''anonymous'', VStr ''use-credentials'', VStr '''', VUndefined})
   \<and> (\<forall>v. has_type 1 react_decls v (tref ''ModifierKey'')
          \<longleftrightarrow> v \<in> VStr ` {''Alt'', ''AltGraph'', ''CapsLock'', ''Control'', ''Fn'', ''FnLock'',
                          ''Hyper'', ''Meta'', ''NumLock'', ''ScrollLock'', ''Shift'', ''Super'',
                          ''Symbol'', ''SymbolLock''})
   \<and> (\<forall>v. has_type 1 react_decls v (tref ''CSSWideKeyword'')
          \<longleftrightarrow> v \<in> {VStr ''initial'', VStr ''inherit'', VStr ''unset''})
   \<and> (\<forall>v. has_type 0 react_decls v
            (TUnion [TStrLit ''off'', TStrLit ''assertive'', TStrLit ''polite'', TUndefined])
          \<longleftrightarrow> v \<in> {VStr ''off'', VStr ''assertive'', VStr ''polite'', VUndefined})
   \<and> (''AriaAttributes'',
       PropSig ''aria-live'' True
         (TUnion [TStrLit ''off'', TStrLit ''assertive'', TStrLit ''polite'', TUndefined]))
      \<in> set keyword_properties"
proof -
  note general = string_literal_unions [where d = 0, THEN conjunct1, rule_format]
  have cross: "literals_of 1 react_decls (tref ''CrossOrigin'')
     = Some [VStr ''anonymous'', VStr ''use-credentials'', VStr '''', VUndefined]"
    using alias_values(1) [of 0] by simp
  have modifier: "literals_of 1 react_decls (tref ''ModifierKey'')
     = Some (map VStr [''Alt'', ''AltGraph'', ''CapsLock'', ''Control'', ''Fn'', ''FnLock'',
                       ''Hyper'', ''Meta'', ''NumLock'', ''ScrollLock'', ''Shift'', ''Super'',
                       ''Symbol'', ''SymbolLock''])"
    using alias_values(2) [of 0] by simp
  have wide: "literals_of 1 react_decls (tref ''CSSWideKeyword'')
     = Some [VStr ''initial'', VStr ''inherit'', VStr ''unset'']"
    using alias_values(3) [of 0] by simp
  have live: "literals_of 0 react_decls
            (TUnion [TStrLit ''off'', TStrLit ''assertive'', TStrLit ''polite'', TUndefined])
     = Some [VStr ''off'', VStr ''assertive'', VStr ''polite'', VUndefined]"
    by simp
  have written: "(''AriaAttributes'',
       PropSig ''aria-live'' True
         (TUnion [TStrLit ''off'', TStrLit ''assertive'', TStrLit ''polite'', TUndefined]))
      \<in> set keyword_properties"
    by code_simp
  have "\<forall>v. has_type 1 react_decls v (tref ''CrossOrigin'')
          \<longleftrightarrow> v \<in> {VStr ''anonymous'', VStr ''use-credentials'', VStr '''', VUndefined}"
    using general(1) [OF cross] by simp
  moreover have "\<forall>v. has_type 1 react_decls v (tref ''ModifierKey'')
          \<longleftrightarrow> v \<in> VStr ` {''Alt'', ''AltGraph'', ''CapsLock'', ''Control'', ''Fn'', ''FnLock'',
                          ''Hyper'', ''Meta'', ''NumLock'', ''ScrollLock'', ''Shift'', ''Super'',
                          ''Symbol'', ''SymbolLock''}"
    using general(1) [OF modifier] by simp
  moreover have "\<forall>v. has_type 1 react_decls v (tref ''CSSWideKeyword'')
          \<longleftrightarrow> v \<in> {VStr ''initial'', VStr ''inherit'', VStr ''unset''}"
    using general(1) [OF wide] by simp
  moreover have "\<forall>v. has_type 0 react_decls v
            (TUnion [TStrLit ''off'', TStrLit ''assertive'', TStrLit ''polite'', TUndefined])
          \<longleftrightarrow> v \<in> {VStr ''off'', VStr ''assertive'', VStr ''polite'', VUndefined}"
    using general(1) [OF live] by simp
  ultimately show ?thesis
    using written by (intro conjI)
qed

text \<open>
  C7 as first stated, that a value of the union type is always one of the enumerated strings,
  fails at \<^verbatim>\<open>CrossOrigin\<close>, which lists \<^verbatim>\<open>undefined\<close>: \<^verbatim>\<open>undefined\<close> is a value of the type and is
  not a string.
\<close>

theorem undefined_in_CrossOrigin:
  "alias_of react_decls ''CrossOrigin''
     = Some ([], TUnion [TStrLit ''anonymous'', TStrLit ''use-credentials'', TStrLit '''',
                         TUndefined])
   \<and> has_type 1 react_decls VUndefined (tref ''CrossOrigin'')
   \<and> \<not> is_str VUndefined"
  by code_simp

subsection \<open>C8: the props of \<^verbatim>\<open>cloneElement\<close>\<close>








subsection \<open>C9: the key of an element\<close>









subsection \<open>C10: what a component renders\<close>

lemma component_methods:
  "\<forall>c\<in>set [tref ''Component'', tref ''PureComponent'', tref ''ClassicComponent''].
      method_return 8 react_decls c ''render''
        = Inr (Some (TUnion [tref ''JSX.Element'', TNull, TBoolLit False]))
      \<and> method_return 8 react_decls c ''setState'' = Inr (Some TVoid)
      \<and> method_return 8 react_decls c ''forceUpdate'' = Inr (Some TVoid)"
  by code_simp

lemma alias_JSX_Element: "alias_of react_decls ''JSX.Element'' = None"
  by code_simp

lemma render_nothing:
  "has_type k react_decls v (TUnion [tref ''JSX.Element'', TNull, TBoolLit False])
     \<longleftrightarrow> v = VNull \<or> v = VBool False"
  by (cases k) (auto simp add: alias_JSX_Element)

text \<open>
  C10. For a component, an instance of \<^verbatim>\<open>Component\<close>, of \<^verbatim>\<open>PureComponent\<close> or of
  \<^verbatim>\<open>ClassicComponent\<close>, the result type of \<^verbatim>\<open>render\<close> is \<^verbatim>\<open>JSX.Element | null | false\<close>,
  and \<^verbatim>\<open>setState\<close> and \<^verbatim>\<open>forceUpdate\<close> return \<^verbatim>\<open>void\<close>. So a component may render
  nothing: \<^verbatim>\<open>null\<close> and \<^verbatim>\<open>false\<close> are the primitive values of that result type
  (\<^verbatim>\<open>JSX.Element\<close> is an interface, declared at line 3737).
\<close>

theorem component_render_result:
  "(\<forall>c\<in>set [tref ''Component'', tref ''PureComponent'', tref ''ClassicComponent''].
      method_return 8 react_decls c ''render''
        = Inr (Some (TUnion [tref ''JSX.Element'', TNull, TBoolLit False]))
      \<and> method_return 8 react_decls c ''setState'' = Inr (Some TVoid)
      \<and> method_return 8 react_decls c ''forceUpdate'' = Inr (Some TVoid))
   \<and> (has_type k react_decls v (TUnion [tref ''JSX.Element'', TNull, TBoolLit False])
        \<longleftrightarrow> v = VNull \<or> v = VBool False)"
  by (intro conjI component_methods render_nothing)

theorem component_render_result_witness:
  "method_return 8 react_decls (tref ''PureComponent'') ''render''
     = Inr (Some (TUnion [tref ''JSX.Element'', TNull, TBoolLit False]))
   \<and> method_return 8 react_decls (tref ''PureComponent'') ''setState'' = Inr (Some TVoid)
   \<and> method_return 8 react_decls (tref ''PureComponent'') ''forceUpdate'' = Inr (Some TVoid)
   \<and> has_type 0 react_decls VNull (TUnion [tref ''JSX.Element'', TNull, TBoolLit False])
   \<and> \<not> has_type 0 react_decls (VStr ''text'')
          (TUnion [tref ''JSX.Element'', TNull, TBoolLit False])"
  using component_render_result [of 0 VNull] component_render_result [of 0 "VStr ''text''"]
  by simp

end
